theory Spec2Isabelle
  imports
    Complex_Main
    "HOL-Library.Char_ord"
    "HOL-Library.List_Lexorder"
    "HOL-Library.Multiset"
    "HOL-Library.Product_Lexorder"
    "HOL-Library.Sublist"
begin

chapter \<open>The MLB analysis dashboard: endpoints, state and derived views\<close>

text \<open>
  The development follows the TypeScript sources of the dashboard:
  \<^item> \<^verbatim>\<open>app/page.tsx\<close>: the component \<^verbatim>\<open>MLBDashboard\<close> with its state, \<^verbatim>\<open>loadData\<close>,
    \<^verbatim>\<open>refreshData\<close> and the views it derives while rendering;
  \<^item> \<^verbatim>\<open>app/api/data/*/route.ts\<close>: the read endpoints (\<^verbatim>\<open>GET\<close>);
  \<^item> \<^verbatim>\<open>app/api/update/route.ts\<close>: the refresh trigger (\<^verbatim>\<open>POST\<close>).
  All definitions come first, the properties follow.
\<close>

section \<open>JavaScript values used by the code\<close>

subsection \<open>Numbers\<close>

text \<open>
  A JavaScript number is \<open>NaN\<close>, an infinity or a finite binary64 value; \<open>Num r\<close> is the
  finite number whose value is the real \<open>r\<close>. The code only compares numbers and takes the
  sign of a difference, and on finite binary64 numbers both agree with the comparison and
  the sign of the difference of their values. The functions that produce numbers from
  text (\<^verbatim>\<open>JSON.parse\<close>, \<^verbatim>\<open>parseFloat\<close>) are not defined here: the rows hold the
  decoded numbers, and \<^verbatim>\<open>parseFloat\<close> is a parameter of the definitions that call it.
\<close>

datatype number = NaN | NegInf | Num real | PosInf

text \<open>The operator \<^verbatim>\<open>x - y\<close>.\<close>

fun num_sub :: "number \<Rightarrow> number \<Rightarrow> number" where
  "num_sub NaN y = NaN"
| "num_sub x NaN = NaN"
| "num_sub (Num a) (Num b) = Num (a - b)"
| "num_sub (Num a) PosInf = NegInf"
| "num_sub (Num a) NegInf = PosInf"
| "num_sub PosInf PosInf = NaN"
| "num_sub PosInf y = PosInf"
| "num_sub NegInf NegInf = NaN"
| "num_sub NegInf y = NegInf"

text \<open>The comparisons \<^verbatim>\<open>x > 0\<close> and \<^verbatim>\<open>x >= y\<close>; every comparison with \<open>NaN\<close> is false.\<close>

fun num_pos :: "number \<Rightarrow> bool" where
  "num_pos (Num r) = (0 < r)"
| "num_pos PosInf = True"
| "num_pos NegInf = False"
| "num_pos NaN = False"

fun num_ge :: "number \<Rightarrow> number \<Rightarrow> bool" where
  "num_ge NaN y = False"
| "num_ge x NaN = False"
| "num_ge PosInf y = True"
| "num_ge x NegInf = True"
| "num_ge (Num a) (Num b) = (b \<le> a)"
| "num_ge (Num a) PosInf = False"
| "num_ge NegInf y = False"

subsection \<open>Property lookup on an object literal\<close>

text \<open>
  \<^verbatim>\<open>obj[key]\<close> on an object literal finds the literal's own properties first and then the
  properties every object inherits from \<^verbatim>\<open>Object.prototype\<close> (functions, and the object
  itself under \<^verbatim>\<open>__proto__\<close>); any other key gives \<^verbatim>\<open>undefined\<close>. The values of a literal
  with numeric entries are therefore of three kinds.
\<close>

datatype jsvalue = Undefined | JNumber number | JObject

definition objectPrototypeKeys :: "string list" where
  "objectPrototypeKeys =
     [''constructor'', ''hasOwnProperty'', ''isPrototypeOf'', ''propertyIsEnumerable'',
      ''toLocaleString'', ''toString'', ''valueOf'', ''__proto__'',
      ''__defineGetter__'', ''__defineSetter__'', ''__lookupGetter__'', ''__lookupSetter__'']"

definition getProperty :: "(string \<times> real) list \<Rightarrow> string \<Rightarrow> jsvalue" where
  "getProperty obj key =
     (case map_of obj key of
        Some v \<Rightarrow> JNumber (Num v)
      | None \<Rightarrow> if key \<in> set objectPrototypeKeys then JObject else Undefined)"

text \<open>Truthiness, \<^verbatim>\<open>v || d\<close>, and the conversion to a number that \<^verbatim>\<open>-\<close> applies.\<close>

fun truthy :: "jsvalue \<Rightarrow> bool" where
  "truthy Undefined = False"
| "truthy (JNumber NaN) = False"
| "truthy (JNumber (Num r)) = (r \<noteq> 0)"
| "truthy (JNumber PosInf) = True"
| "truthy (JNumber NegInf) = True"
| "truthy JObject = True"

definition js_or :: "jsvalue \<Rightarrow> jsvalue \<Rightarrow> jsvalue" where
  "js_or v d = (if truthy v then v else d)"

fun toNumber :: "jsvalue \<Rightarrow> number" where
  "toNumber Undefined = NaN"
| "toNumber (JNumber n) = n"
| "toNumber JObject = NaN"

subsection \<open>Array methods\<close>

text \<open>
  \<^verbatim>\<open>Array.prototype.sort(cmp)\<close> is a stable sort: \<^verbatim>\<open>x\<close> moves behind \<^verbatim>\<open>y\<close> only when
  \<^verbatim>\<open>cmp(x, y) > 0\<close>; a result of \<open>NaN\<close> counts as \<open>0\<close>. The language fixes the result
  when the comparator is consistent on the elements, and leaves the order to the engine
  otherwise. The model is the stable insertion sort; for a comparator that agrees with a
  key it is shown below to give the one array that is sorted and stable. Where the
  comparator is not consistent the insertion sort is one possible engine, and the
  properties below state an order only where the comparator is consistent or for an
  array on which the insertion sort and V8's sort (a binary insertion sort after the
  initial run, for short arrays) make the same moves.
\<close>

fun sort_insert :: "('a \<Rightarrow> 'a \<Rightarrow> number) \<Rightarrow> 'a \<Rightarrow> 'a list \<Rightarrow> 'a list" where
  "sort_insert cmp x [] = [x]"
| "sort_insert cmp x (y # ys) =
     (if num_pos (cmp x y) then y # sort_insert cmp x ys else x # y # ys)"

definition js_sort :: "('a \<Rightarrow> 'a \<Rightarrow> number) \<Rightarrow> 'a list \<Rightarrow> 'a list" where
  "js_sort cmp xs = foldr (sort_insert cmp) xs []"

text \<open>\<^verbatim>\<open>sort()\<close> without a comparator, on strings: by code units, lexicographically.\<close>

definition defaultCompare :: "string \<Rightarrow> string \<Rightarrow> number" where
  "defaultCompare x y = (if x < y then Num (- 1) else if y < x then Num 1 else Num 0)"

text \<open>\<^verbatim>\<open>slice(s, e)\<close> for indices that are not negative, and \<^verbatim>\<open>includes\<close>.\<close>

definition slice :: "nat \<Rightarrow> nat \<Rightarrow> 'a list \<Rightarrow> 'a list" where
  "slice s e xs = take (e - s) (drop s xs)"

definition array_includes :: "'a list \<Rightarrow> 'a \<Rightarrow> bool" where
  "array_includes xs x = (x \<in> set xs)"

text \<open>
  \<^verbatim>\<open>Array.from(new Set(xs))\<close>: the distinct elements in the order of their first
  occurrence.
\<close>

definition set_add :: "'a list \<Rightarrow> 'a \<Rightarrow> 'a list" where
  "set_add seen x = (if x \<in> set seen then seen else seen @ [x])"

definition array_from_set :: "'a list \<Rightarrow> 'a list" where
  "array_from_set xs = foldl set_add [] xs"

section \<open>The rows of the three collections\<close>

text \<open>
  The interfaces \<^verbatim>\<open>PlayerProjection\<close>, \<^verbatim>\<open>BatterAnalysis\<close> and \<^verbatim>\<open>PitcherAnalysis\<close> of
  \<^verbatim>\<open>page.tsx\<close>. Field names are global in a record, so the fields the interfaces share
  are declared once in a base record; \<^verbatim>\<open>POS\<close>, which two of them have, is written
  \<open>PlayerProjection.POS\<close> for a projection. Numeric fields hold the finite numbers of the
  JSON files.
\<close>

record Row =
  PLAYER :: string
  TEAM :: string
  GAME :: string

record PlayerProjection = Row +
  POS :: string
  INN :: string
  K :: string
  HA :: string
  ER :: string
  BBI :: string
  RBI :: string
  R :: string
  H :: string

record Analysis = Row +
  OPTIMAL_ALT_LINE :: real
  EDGE :: real
  EDGE_PERCENTAGE :: real
  CONFIDENCE :: string
  RECOMMENDATION :: string

record BatterAnalysis = Analysis +
  POS :: string
  H_PROJECTION :: real

record PitcherAnalysis = Analysis +
  K_PROJECTION :: real

section \<open>Views derived while rendering (\<^verbatim>\<open>page.tsx\<close>)\<close>

text \<open>The selectable games, \<^verbatim>\<open>allGames\<close>.\<close>

definition allGames ::
  "PlayerProjection list \<Rightarrow> BatterAnalysis list \<Rightarrow> PitcherAnalysis list \<Rightarrow> string list" where
  "allGames playerProjections batterAnalysis pitcherAnalysis =
     js_sort defaultCompare
       (filter (\<lambda>game. game \<noteq> [] \<and> game \<noteq> ''-'')
          (array_from_set
             (map GAME playerProjections @ map GAME batterAnalysis @ map GAME pitcherAnalysis)))"

text \<open>The three filtered collections.\<close>

definition filteredPlayerProjections ::
  "string list \<Rightarrow> PlayerProjection list \<Rightarrow> PlayerProjection list" where
  "filteredPlayerProjections selectedGames playerProjections =
     (if length selectedGames = 0 then playerProjections
      else filter (\<lambda>p. array_includes selectedGames (GAME p)) playerProjections)"

definition filteredBatterAnalysis ::
  "string list \<Rightarrow> BatterAnalysis list \<Rightarrow> BatterAnalysis list" where
  "filteredBatterAnalysis selectedGames batterAnalysis =
     (if length selectedGames = 0 then batterAnalysis
      else filter (\<lambda>b. array_includes selectedGames (GAME b)) batterAnalysis)"

definition filteredPitcherAnalysis ::
  "string list \<Rightarrow> PitcherAnalysis list \<Rightarrow> PitcherAnalysis list" where
  "filteredPitcherAnalysis selectedGames pitcherAnalysis =
     (if length selectedGames = 0 then pitcherAnalysis
      else filter (\<lambda>p. array_includes selectedGames (GAME p)) pitcherAnalysis)"

text \<open>
  The comparator of the batter sorts (the same function text appears twice in
  \<^verbatim>\<open>page.tsx\<close>): the difference of the confidence ranks, and on a zero difference the
  difference of the edge percentages.
\<close>

definition confidenceOrder :: "(string \<times> real) list" where
  "confidenceOrder = [(''High'', 3), (''Medium'', 2), (''Low'', 1), (''Avoid'', 0)]"

definition confidenceValue :: "string \<Rightarrow> number" where
  "confidenceValue c = toNumber (js_or (getProperty confidenceOrder c) (JNumber (Num 0)))"

definition compareBatters :: "BatterAnalysis \<Rightarrow> BatterAnalysis \<Rightarrow> number" where
  "compareBatters a b =
     (let confidenceDiff = num_sub (confidenceValue (CONFIDENCE b)) (confidenceValue (CONFIDENCE a))
      in if confidenceDiff \<noteq> Num 0 then confidenceDiff
         else Num (EDGE_PERCENTAGE b - EDGE_PERCENTAGE a))"

definition topBatterOpportunities :: "string list \<Rightarrow> BatterAnalysis list \<Rightarrow> BatterAnalysis list" where
  "topBatterOpportunities selectedGames batterAnalysis =
     slice 0 5
       (js_sort compareBatters
          (filter (\<lambda>b. EDGE_PERCENTAGE b > 0) (filteredBatterAnalysis selectedGames batterAnalysis)))"

definition comparePitchers :: "PitcherAnalysis \<Rightarrow> PitcherAnalysis \<Rightarrow> number" where
  "comparePitchers a b = Num (EDGE_PERCENTAGE b - EDGE_PERCENTAGE a)"

definition topPitcherOpportunities ::
  "string list \<Rightarrow> PitcherAnalysis list \<Rightarrow> PitcherAnalysis list" where
  "topPitcherOpportunities selectedGames pitcherAnalysis =
     slice 0 5
       (js_sort comparePitchers
          (filter (\<lambda>p. CONFIDENCE p = ''High'' \<or> CONFIDENCE p = ''Medium'')
             (filteredPitcherAnalysis selectedGames pitcherAnalysis)))"

text \<open>
  The projection table: the comparator on the \<^verbatim>\<open>H\<close> field, the 50 rows shown, and the
  check mark of a row. The builtin \<^verbatim>\<open>parseFloat\<close> is the first parameter of each
  definition. The literal \<^verbatim>\<open>1.10\<close> is the binary64 number nearest to 11/10, which is the
  least binary64 number that is not below 11/10; so \<^verbatim>\<open>x >= 1.10\<close> holds for a binary64
  \<^verbatim>\<open>x\<close> exactly when its value is at least 11/10.
\<close>

definition hitValue :: "(string \<Rightarrow> number) \<Rightarrow> PlayerProjection \<Rightarrow> number" where
  "hitValue parseFloat a = (if H a \<noteq> ''-'' then parseFloat (H a) else Num 0)"

definition compareHits ::
  "(string \<Rightarrow> number) \<Rightarrow> PlayerProjection \<Rightarrow> PlayerProjection \<Rightarrow> number" where
  "compareHits parseFloat a b =
     (let aH = hitValue parseFloat a; bH = hitValue parseFloat b in num_sub bH aH)"

definition projectionTable ::
  "(string \<Rightarrow> number) \<Rightarrow> string list \<Rightarrow> PlayerProjection list \<Rightarrow> PlayerProjection list" where
  "projectionTable parseFloat selectedGames playerProjections =
     slice 0 50
       (js_sort (compareHits parseFloat)
          (filteredPlayerProjections selectedGames playerProjections))"


text \<open>The batter detail table: the same comparator, every row.\<close>

definition batterTable :: "string list \<Rightarrow> BatterAnalysis list \<Rightarrow> BatterAnalysis list" where
  "batterTable selectedGames batterAnalysis =
     js_sort compareBatters (filteredBatterAnalysis selectedGames batterAnalysis)"

section \<open>Rendering with array references\<close>

text \<open>
  In the component the collections are arrays held by reference. \<^verbatim>\<open>filter\<close> and \<^verbatim>\<open>slice\<close>
  build a new array; \<^verbatim>\<open>sort\<close> reorders the array it is called on and returns that same
  array. A heap is the list of the arrays allocated so far, a reference an index into it.
\<close>

type_synonym ref = nat

type_synonym 'a heap = "'a list list"

definition deref :: "'a heap \<Rightarrow> ref \<Rightarrow> 'a list" where
  "deref h r = h ! r"

definition alloc :: "'a list \<Rightarrow> 'a heap \<Rightarrow> ref \<times> 'a heap" where
  "alloc xs h = (length h, h @ [xs])"

definition ref_filter :: "('a \<Rightarrow> bool) \<Rightarrow> ref \<Rightarrow> 'a heap \<Rightarrow> ref \<times> 'a heap" where
  "ref_filter P r h = alloc (filter P (deref h r)) h"

definition ref_slice :: "nat \<Rightarrow> nat \<Rightarrow> ref \<Rightarrow> 'a heap \<Rightarrow> ref \<times> 'a heap" where
  "ref_slice s e r h = alloc (slice s e (deref h r)) h"

definition ref_sort :: "('a \<Rightarrow> 'a \<Rightarrow> number) \<Rightarrow> ref \<Rightarrow> 'a heap \<Rightarrow> ref \<times> 'a heap" where
  "ref_sort cmp r h = (r, h[r := js_sort cmp (deref h r)])"

text \<open>
  The filtered collections as references: with no game selected the state's own array,
  otherwise a new one.
\<close>

definition filteredPlayerProjections_ref ::
  "string list \<Rightarrow> ref \<Rightarrow> PlayerProjection heap \<Rightarrow> ref \<times> PlayerProjection heap" where
  "filteredPlayerProjections_ref selectedGames playerProjections h =
     (if length selectedGames = 0 then (playerProjections, h)
      else ref_filter (\<lambda>p. array_includes selectedGames (GAME p)) playerProjections h)"

definition filteredBatterAnalysis_ref ::
  "string list \<Rightarrow> ref \<Rightarrow> BatterAnalysis heap \<Rightarrow> ref \<times> BatterAnalysis heap" where
  "filteredBatterAnalysis_ref selectedGames batterAnalysis h =
     (if length selectedGames = 0 then (batterAnalysis, h)
      else ref_filter (\<lambda>b. array_includes selectedGames (GAME b)) batterAnalysis h)"

definition filteredPitcherAnalysis_ref ::
  "string list \<Rightarrow> ref \<Rightarrow> PitcherAnalysis heap \<Rightarrow> ref \<times> PitcherAnalysis heap" where
  "filteredPitcherAnalysis_ref selectedGames pitcherAnalysis h =
     (if length selectedGames = 0 then (pitcherAnalysis, h)
      else ref_filter (\<lambda>p. array_includes selectedGames (GAME p)) pitcherAnalysis h)"

text \<open>
  One rendering of the projections: the filtered array is sorted where it is, then the
  first 50 rows are copied out for the table. The result is the table's reference and
  the heap after rendering.
\<close>

definition renderProjections ::
  "(string \<Rightarrow> number) \<Rightarrow> string list \<Rightarrow> ref \<Rightarrow> PlayerProjection heap \<Rightarrow>
   ref \<times> PlayerProjection heap" where
  "renderProjections parseFloat selectedGames playerProjections h =
     (case filteredPlayerProjections_ref selectedGames playerProjections h of
        (filteredRef, h1) \<Rightarrow>
          (case ref_sort (compareHits parseFloat) filteredRef h1 of
             (sortedRef, h2) \<Rightarrow> ref_slice 0 50 sortedRef h2))"

text \<open>
  One rendering of the batters: \<^verbatim>\<open>topBatterOpportunities\<close> is computed first (on a
  filtered copy), the detail table then sorts the filtered array where it is. The result
  holds the references of the top list and of the table.
\<close>

definition renderBatters ::
  "string list \<Rightarrow> ref \<Rightarrow> BatterAnalysis heap \<Rightarrow> (ref \<times> ref) \<times> BatterAnalysis heap" where
  "renderBatters selectedGames batterAnalysis h =
     (case filteredBatterAnalysis_ref selectedGames batterAnalysis h of
        (filteredRef, h1) \<Rightarrow>
          (case ref_filter (\<lambda>b. EDGE_PERCENTAGE b > 0) filteredRef h1 of
             (positiveRef, h2) \<Rightarrow>
               (case ref_sort compareBatters positiveRef h2 of
                  (sortedTopRef, h3) \<Rightarrow>
                    (case ref_slice 0 5 sortedTopRef h3 of
                       (topRef, h4) \<Rightarrow>
                         (case ref_sort compareBatters filteredRef h4 of
                            (tableRef, h5) \<Rightarrow> ((topRef, tableRef), h5))))))"

text \<open>
  One rendering of the pitchers: the top list is sorted on a filtered copy, the detail
  table maps over the filtered array as it is.
\<close>

definition renderPitchers ::
  "string list \<Rightarrow> ref \<Rightarrow> PitcherAnalysis heap \<Rightarrow> (ref \<times> ref) \<times> PitcherAnalysis heap" where
  "renderPitchers selectedGames pitcherAnalysis h =
     (case filteredPitcherAnalysis_ref selectedGames pitcherAnalysis h of
        (filteredRef, h1) \<Rightarrow>
          (case ref_filter (\<lambda>p. CONFIDENCE p = ''High'' \<or> CONFIDENCE p = ''Medium'') filteredRef h1 of
             (confidentRef, h2) \<Rightarrow>
               (case ref_sort comparePitchers confidentRef h2 of
                  (sortedTopRef, h3) \<Rightarrow>
                    (case ref_slice 0 5 sortedTopRef h3 of
                       (topRef, h4) \<Rightarrow> ((topRef, filteredRef), h4)))))"

section \<open>The component's state, \<^verbatim>\<open>loadData\<close> and \<^verbatim>\<open>refreshData\<close>\<close>

text \<open>The \<^verbatim>\<open>useState\<close> cells of \<^verbatim>\<open>MLBDashboard\<close> and their initial values.\<close>

record DashboardState =
  playerProjections :: "PlayerProjection list"
  batterAnalysis :: "BatterAnalysis list"
  pitcherAnalysis :: "PitcherAnalysis list"
  loading :: bool
  updating :: bool
  lastUpdated :: string
  selectedGames :: "string list"

definition initialState :: DashboardState where
  "initialState =
     \<lparr>playerProjections = [], batterAnalysis = [], pitcherAnalysis = [],
      loading = True, updating = False, lastUpdated = [], selectedGames = []\<rparr>"

text \<open>
  What the two operations do, in program order: calls of the state setters, requests and
  alerts. Console output is left out.
\<close>

datatype effect =
    SetPlayerProjections "PlayerProjection list"
  | SetBatterAnalysis "BatterAnalysis list"
  | SetPitcherAnalysis "PitcherAnalysis list"
  | SetLoading bool
  | SetUpdating bool
  | SetLastUpdated string
  | Fetch string
  | Alert string

fun apply_effect :: "DashboardState \<Rightarrow> effect \<Rightarrow> DashboardState" where
  "apply_effect s (SetPlayerProjections v) = s\<lparr>playerProjections := v\<rparr>"
| "apply_effect s (SetBatterAnalysis v) = s\<lparr>batterAnalysis := v\<rparr>"
| "apply_effect s (SetPitcherAnalysis v) = s\<lparr>pitcherAnalysis := v\<rparr>"
| "apply_effect s (SetLoading v) = s\<lparr>loading := v\<rparr>"
| "apply_effect s (SetUpdating v) = s\<lparr>updating := v\<rparr>"
| "apply_effect s (SetLastUpdated v) = s\<lparr>lastUpdated := v\<rparr>"
| "apply_effect s (Fetch url) = s"
| "apply_effect s (Alert msg) = s"

definition run_effects :: "DashboardState \<Rightarrow> effect list \<Rightarrow> DashboardState" where
  "run_effects s es = foldl apply_effect s es"

text \<open>
  The outcome of \<^verbatim>\<open>await fetch(url)\<close>: the promise rejects (a transport error), or it
  resolves to a response with its \<^verbatim>\<open>ok\<close> flag and its body; the body is \<open>None\<close> when
  \<^verbatim>\<open>response.json()\<close> rejects.
\<close>

datatype 'a fetch_result = Rejected | Resolved bool "'a option"

text \<open>
  One block of \<^verbatim>\<open>loadData\<close>: fetch, and on an \<^verbatim>\<open>ok\<close> response decode the body and store
  it. The result is the effects of the block and whether it threw.
\<close>

fun fetchCollection :: "('a \<Rightarrow> effect) \<Rightarrow> string \<Rightarrow> 'a fetch_result \<Rightarrow> effect list \<times> bool" where
  "fetchCollection setter url Rejected = ([Fetch url], True)"
| "fetchCollection setter url (Resolved ok body) =
     (if ok then
        (case body of
           None \<Rightarrow> ([Fetch url], True)
         | Some d \<Rightarrow> ([Fetch url, setter d], False))
      else ([Fetch url], False))"

text \<open>
  The \<^verbatim>\<open>try\<close> block of \<^verbatim>\<open>loadData\<close>: the three blocks in sequence and the time stamp; an
  exception leaves the block at once. \<open>now\<close> is \<^verbatim>\<open>new Date().toLocaleString()\<close>.
\<close>

definition loadData_try ::
  "PlayerProjection list fetch_result \<Rightarrow> BatterAnalysis list fetch_result \<Rightarrow>
   PitcherAnalysis list fetch_result \<Rightarrow> string \<Rightarrow> effect list" where
  "loadData_try projectionsResponse batterResponse pitcherResponse now =
     (case fetchCollection SetPlayerProjections ''/api/data/projections'' projectionsResponse of
        (e1, True) \<Rightarrow> e1
      | (e1, False) \<Rightarrow>
          (case fetchCollection SetBatterAnalysis ''/api/data/batter-analysis'' batterResponse of
             (e2, True) \<Rightarrow> e1 @ e2
           | (e2, False) \<Rightarrow>
               (case fetchCollection SetPitcherAnalysis ''/api/data/pitcher-analysis'' pitcherResponse of
                  (e3, True) \<Rightarrow> e1 @ e2 @ e3
                | (e3, False) \<Rightarrow> e1 @ e2 @ e3 @ [SetLastUpdated now])))"

definition loadData_effects ::
  "PlayerProjection list fetch_result \<Rightarrow> BatterAnalysis list fetch_result \<Rightarrow>
   PitcherAnalysis list fetch_result \<Rightarrow> string \<Rightarrow> effect list" where
  "loadData_effects projectionsResponse batterResponse pitcherResponse now =
     [SetLoading True]
     @ loadData_try projectionsResponse batterResponse pitcherResponse now
     @ [SetLoading False]"

definition loadData ::
  "DashboardState \<Rightarrow> PlayerProjection list fetch_result \<Rightarrow> BatterAnalysis list fetch_result \<Rightarrow>
   PitcherAnalysis list fetch_result \<Rightarrow> string \<Rightarrow> DashboardState" where
  "loadData s projectionsResponse batterResponse pitcherResponse now =
     run_effects s (loadData_effects projectionsResponse batterResponse pitcherResponse now)"

text \<open>
  The JSON body of the refresh trigger's response; \<open>outputText\<close> is its field \<^verbatim>\<open>output\<close>
  (a reserved word here). An absent field is \<open>None\<close>.
\<close>

record UpdateResult =
  success :: bool
  message :: string
  outputText :: "string option"
  error :: "string option"

text \<open>
  \<^verbatim>\<open>refreshData\<close>: the body is decoded whatever the status of the response; a rejected
  request or an undecodable body goes to the \<^verbatim>\<open>catch\<close> block.
\<close>

definition refreshData_effects ::
  "UpdateResult fetch_result \<Rightarrow> PlayerProjection list fetch_result \<Rightarrow>
   BatterAnalysis list fetch_result \<Rightarrow> PitcherAnalysis list fetch_result \<Rightarrow> string \<Rightarrow>
   effect list" where
  "refreshData_effects response projectionsResponse batterResponse pitcherResponse now =
     [SetUpdating True, Fetch ''/api/update'']
     @ (case response of
          Rejected \<Rightarrow> [Alert ''Error updating data. Please try again.'']
        | Resolved ok None \<Rightarrow> [Alert ''Error updating data. Please try again.'']
        | Resolved ok (Some result) \<Rightarrow>
            if success result then
              loadData_effects projectionsResponse batterResponse pitcherResponse now
            else [Alert (''Data update failed: '' @ message result)])
     @ [SetUpdating False]"

definition refreshData ::
  "DashboardState \<Rightarrow> UpdateResult fetch_result \<Rightarrow> PlayerProjection list fetch_result \<Rightarrow>
   BatterAnalysis list fetch_result \<Rightarrow> PitcherAnalysis list fetch_result \<Rightarrow> string \<Rightarrow>
   DashboardState" where
  "refreshData s response projectionsResponse batterResponse pitcherResponse now =
     run_effects s
       (refreshData_effects response projectionsResponse batterResponse pitcherResponse now)"

section \<open>The endpoints\<close>

text \<open>
  A response of \<^verbatim>\<open>NextResponse.json(body, {status})\<close>; the status is 200 when none is
  given.
\<close>

record 'b response =
  status :: nat
  body :: 'b

text \<open>What \<^verbatim>\<open>fetch\<close> in the browser resolves to for a response of an endpoint.\<close>

definition serve :: "'b response \<Rightarrow> 'b fetch_result" where
  "serve r = Resolved (200 \<le> status r \<and> status r \<le> 299) (Some (body r))"

subsection \<open>The read endpoints (\<^verbatim>\<open>GET\<close>)\<close>

text \<open>
  A path is the list of its segments under the root. \<^verbatim>\<open>path.join\<close> on an absolute
  directory resolves \<^verbatim>\<open>..\<close> by dropping the last segment.
\<close>

definition path_push :: "string list \<Rightarrow> string \<Rightarrow> string list" where
  "path_push dir seg = (if seg = ''..'' then butlast dir else dir @ [seg])"

definition path_join :: "string list \<Rightarrow> string list \<Rightarrow> string list" where
  "path_join cwd segs = foldl path_push cwd segs"

text \<open>
  \<^verbatim>\<open>fs.readFileSync(path, 'utf8')\<close> throws (no such file, or any other I/O error) or gives
  the contents. \<^verbatim>\<open>JSON.parse\<close> is a parameter of the handlers: \<open>None\<close> when it throws.
  The body of a response is the decoded data or the object \<^verbatim>\<open>{error: message}\<close>.
\<close>

datatype read_result = ReadThrows | FileContents string

datatype 'j data_body = Data 'j | ErrorPayload string

definition GET_projections ::
  "(string \<Rightarrow> 'j option) \<Rightarrow> (string list \<Rightarrow> read_result) \<Rightarrow> string list \<Rightarrow>
   'j data_body response" where
  "GET_projections JSON_parse readFileSync cwd =
     (let filePath = path_join cwd [''..'', ''data'', ''mlb_player_projections.json'']
      in case readFileSync filePath of
           ReadThrows \<Rightarrow>
             \<lparr>status = 500, body = ErrorPayload ''Failed to load projections data''\<rparr>
         | FileContents fileContents \<Rightarrow>
             (case JSON_parse fileContents of
                None \<Rightarrow> \<lparr>status = 500, body = ErrorPayload ''Failed to load projections data''\<rparr>
              | Some data \<Rightarrow> \<lparr>status = 200, body = Data data\<rparr>))"

definition GET_batter_analysis ::
  "(string \<Rightarrow> 'j option) \<Rightarrow> (string list \<Rightarrow> read_result) \<Rightarrow> string list \<Rightarrow>
   'j data_body response" where
  "GET_batter_analysis JSON_parse readFileSync cwd =
     (let filePath = path_join cwd [''..'', ''analysis'', ''batter_hits_analysis.json'']
      in case readFileSync filePath of
           ReadThrows \<Rightarrow>
             \<lparr>status = 500, body = ErrorPayload ''Failed to load batter analysis data''\<rparr>
         | FileContents fileContents \<Rightarrow>
             (case JSON_parse fileContents of
                None \<Rightarrow>
                  \<lparr>status = 500, body = ErrorPayload ''Failed to load batter analysis data''\<rparr>
              | Some data \<Rightarrow> \<lparr>status = 200, body = Data data\<rparr>))"

definition GET_pitcher_analysis ::
  "(string \<Rightarrow> 'j option) \<Rightarrow> (string list \<Rightarrow> read_result) \<Rightarrow> string list \<Rightarrow>
   'j data_body response" where
  "GET_pitcher_analysis JSON_parse readFileSync cwd =
     (let filePath = path_join cwd [''..'', ''analysis'', ''pitcher_strikeout_analysis.json'']
      in case readFileSync filePath of
           ReadThrows \<Rightarrow>
             \<lparr>status = 500, body = ErrorPayload ''Failed to load pitcher analysis data''\<rparr>
         | FileContents fileContents \<Rightarrow>
             (case JSON_parse fileContents of
                None \<Rightarrow>
                  \<lparr>status = 500, body = ErrorPayload ''Failed to load pitcher analysis data''\<rparr>
              | Some data \<Rightarrow> \<lparr>status = 200, body = Data data\<rparr>))"

definition GET_hits_runs_rbis_analysis ::
  "(string \<Rightarrow> 'j option) \<Rightarrow> (string list \<Rightarrow> read_result) \<Rightarrow> string list \<Rightarrow>
   'j data_body response" where
  "GET_hits_runs_rbis_analysis JSON_parse readFileSync cwd =
     (let filePath = path_join cwd [''..'', ''analysis'', ''hits_runs_rbis_analysis.json'']
      in case readFileSync filePath of
           ReadThrows \<Rightarrow>
             \<lparr>status = 500, body = ErrorPayload ''Failed to load hits runs rbis analysis data''\<rparr>
         | FileContents fileContents \<Rightarrow>
             (case JSON_parse fileContents of
                None \<Rightarrow>
                  \<lparr>status = 500,
                   body = ErrorPayload ''Failed to load hits runs rbis analysis data''\<rparr>
              | Some data \<Rightarrow> \<lparr>status = 200, body = Data data\<rparr>))"

subsection \<open>The refresh trigger (\<^verbatim>\<open>POST\<close>)\<close>

text \<open>
  The events of a child process arrive in some order: chunks on \<^verbatim>\<open>stdout\<close> and
  \<^verbatim>\<open>stderr\<close>, \<^verbatim>\<open>close\<close> with the exit code (\<open>None\<close> for \<^verbatim>\<open>null\<close>, a child ended by a
  signal) and \<^verbatim>\<open>error\<close> with the error's message.
\<close>

datatype child_event =
    StdoutData string
  | StderrData string
  | Close "int option"
  | ErrorEvent string

datatype thrown = ErrorObject string | OtherValue

text \<open>
  One run of the handler, by what its environment does. The paths are computed first,
  inside the \<^verbatim>\<open>try\<close> block (\<^verbatim>\<open>process.cwd()\<close> throws when the working directory is gone).
  The handler then returns \<^verbatim>\<open>new Promise(...)\<close> without awaiting it, and \<^verbatim>\<open>spawn\<close> and the
  registration of the event handlers run inside the executor of that promise: there
  either something throws, or the child is created and its events follow.
\<close>

datatype update_run =
    SetupThrows thrown
  | SpawnThrows thrown
  | Spawned "child_event list"

text \<open>The promise that the handler returns, as the framework finds it.\<close>

datatype 'a promise = Pending | Fulfilled 'a | RejectedWith thrown

text \<open>
  The handlers registered on the child, run over its events with the two buffers. The
  first \<^verbatim>\<open>close\<close> or \<^verbatim>\<open>error\<close> calls \<^verbatim>\<open>resolve\<close>, and later calls cannot change the
  promise; when neither arrives \<^verbatim>\<open>resolve\<close> is not called (\<open>None\<close>).
\<close>

fun childEvents :: "child_event list \<Rightarrow> string \<Rightarrow> string \<Rightarrow> UpdateResult response option" where
  "childEvents [] stdout stderr = None"
| "childEvents (StdoutData d # es) stdout stderr = childEvents es (stdout @ d) stderr"
| "childEvents (StderrData d # es) stdout stderr = childEvents es stdout (stderr @ d)"
| "childEvents (Close code # es) stdout stderr =
     Some (if code = Some 0 then
             \<lparr>status = 200,
              body = \<lparr>success = True, message = ''Data update completed successfully'',
                      outputText = Some stdout, error = None\<rparr>\<rparr>
           else
             \<lparr>status = 500,
              body = \<lparr>success = False, message = ''Data update failed'',
                      outputText = Some stdout, error = Some stderr\<rparr>\<rparr>)"
| "childEvents (ErrorEvent msg # es) stdout stderr =
     Some \<lparr>status = 500,
           body = \<lparr>success = False, message = ''Failed to start update process'',
                   outputText = None, error = Some msg\<rparr>\<rparr>"

text \<open>
  \<^verbatim>\<open>POST\<close>. An exception of the setup is caught by the \<^verbatim>\<open>catch\<close> block, which answers
  with \<^verbatim>\<open>Internal server error\<close>. An exception inside the executor rejects the promise
  that was returned; the \<^verbatim>\<open>catch\<close> block does not see it, and the handler gives no
  response of its own.
\<close>

definition POST :: "update_run \<Rightarrow> UpdateResult response promise" where
  "POST run =
     (case run of
        SetupThrows e \<Rightarrow>
          Fulfilled
            \<lparr>status = 500,
             body = \<lparr>success = False, message = ''Internal server error'', outputText = None,
                     error = Some (case e of ErrorObject msg \<Rightarrow> msg
                                   | OtherValue \<Rightarrow> ''Unknown error'')\<rparr>\<rparr>
      | SpawnThrows e \<Rightarrow> RejectedWith e
      | Spawned events \<Rightarrow>
          (case childEvents events [] [] of
             None \<Rightarrow> Pending
           | Some r \<Rightarrow> Fulfilled r))"

section \<open>The specification's notions\<close>

text \<open>
  The definitions of this section are written from the words of the specification, to be
  compared with the definitions taken from the code.
\<close>

subsection \<open>Ordered views\<close>

text \<open>
  The confidence rank: High = 3, Medium = 2, Low = 1, Avoid and every other label = 0.
\<close>

definition confidenceRank :: "string \<Rightarrow> int" where
  "confidenceRank c =
     (if c = ''High'' then 3 else if c = ''Medium'' then 2 else if c = ''Low'' then 1 else 0)"

text \<open>
  Ordering by confidence rank descending and then by edge percentage descending is
  ordering by the pair of the negated values, ascending, in the lexicographic order.
  \<^const>\<open>sort_key\<close> is the stable sort by a key: rows with equal keys keep their order.
\<close>

definition batterKey :: "BatterAnalysis \<Rightarrow> int \<times> real" where
  "batterKey b = (- confidenceRank (CONFIDENCE b), - EDGE_PERCENTAGE b)"

definition spec_topBatterOpportunities :: "BatterAnalysis list \<Rightarrow> BatterAnalysis list" where
  "spec_topBatterOpportunities filtered =
     take 5 (sort_key batterKey (filter (\<lambda>b. 0 < EDGE_PERCENTAGE b) filtered))"

text \<open>A label that names no property inherited from \<^verbatim>\<open>Object.prototype\<close>.\<close>

definition ordinaryLabel :: "BatterAnalysis \<Rightarrow> bool" where
  "ordinaryLabel b = (CONFIDENCE b \<notin> set objectPrototypeKeys)"

definition spec_topPitcherOpportunities :: "PitcherAnalysis list \<Rightarrow> PitcherAnalysis list" where
  "spec_topPitcherOpportunities filtered =
     take 5
       (sort_key (\<lambda>p. - EDGE_PERCENTAGE p)
          (filter (\<lambda>p. CONFIDENCE p \<in> {''High'', ''Medium''}) filtered))"

text \<open>
  The hit count of a row is the number that \<^verbatim>\<open>parseFloat\<close> reads from its hit-count
  field, and zero for the placeholder \<^verbatim>\<open>-\<close>. The field is numeric or the placeholder
  when it is the placeholder or is read as a number, that is, not as \<open>NaN\<close>.
\<close>

definition hitCount :: "(string \<Rightarrow> number) \<Rightarrow> PlayerProjection \<Rightarrow> number" where
  "hitCount parseFloat p = (if H p = ''-'' then Num 0 else parseFloat (H p))"

definition numericOrPlaceholder :: "(string \<Rightarrow> number) \<Rightarrow> PlayerProjection \<Rightarrow> bool" where
  "numericOrPlaceholder parseFloat p = (H p = ''-'' \<or> parseFloat (H p) \<noteq> NaN)"

text \<open>
  Ordering by a number descending is ordering by a key that is the smaller the greater
  the number: plus infinity first, then the finite numbers from the greatest down, then
  minus infinity. (\<open>NaN\<close> has no place in the order; the key puts it last.)
\<close>

fun descKey :: "number \<Rightarrow> int \<times> real" where
  "descKey PosInf = (- 1, 0)"
| "descKey (Num r) = (0, - r)"
| "descKey NegInf = (1, 0)"
| "descKey NaN = (2, 0)"


subsection \<open>Load\<close>

text \<open>
  A fetch whose block of \<^verbatim>\<open>loadData\<close> ends in an exception: the request is rejected, or
  the body of an \<^verbatim>\<open>ok\<close> response cannot be decoded. When it does not, the collection
  afterwards is the decoded body of an \<^verbatim>\<open>ok\<close> response and the previous contents
  otherwise.
\<close>

fun throws :: "'a fetch_result \<Rightarrow> bool" where
  "throws Rejected = True"
| "throws (Resolved ok decoded) = (ok \<and> decoded = None)"

fun received :: "'a \<Rightarrow> 'a fetch_result \<Rightarrow> 'a" where
  "received previous (Resolved True (Some d)) = d"
| "received previous r = previous"

text \<open>
  The setter calls of a fetch that does not throw: one call with the decoded body of an
  \<^verbatim>\<open>ok\<close> response, none otherwise.
\<close>

fun stored :: "('a \<Rightarrow> effect) \<Rightarrow> 'a fetch_result \<Rightarrow> effect list" where
  "stored setter (Resolved True (Some d)) = [setter d]"
| "stored setter r = []"

subsection \<open>The refresh trigger\<close>

text \<open>The output a child has written on each stream, from its data events.\<close>

fun isData :: "child_event \<Rightarrow> bool" where
  "isData (StdoutData d) = True"
| "isData (StderrData d) = True"
| "isData (Close code) = False"
| "isData (ErrorEvent msg) = False"

fun stdoutChunk :: "child_event \<Rightarrow> string" where
  "stdoutChunk (StdoutData d) = d"
| "stdoutChunk e = []"

fun stderrChunk :: "child_event \<Rightarrow> string" where
  "stderrChunk (StderrData d) = d"
| "stderrChunk e = []"

definition capturedStdout :: "child_event list \<Rightarrow> string" where
  "capturedStdout events = concat (map stdoutChunk events)"

definition capturedStderr :: "child_event list \<Rightarrow> string" where
  "capturedStderr events = concat (map stderrChunk events)"

subsection \<open>The data files and the collections\<close>

text \<open>
  The three files of the data root, which is the parent of the server's working
  directory.
\<close>

definition projectionsFile :: "string list \<Rightarrow> string list" where
  "projectionsFile cwd = butlast cwd @ [''data'', ''mlb_player_projections.json'']"

definition batterAnalysisFile :: "string list \<Rightarrow> string list" where
  "batterAnalysisFile cwd = butlast cwd @ [''analysis'', ''batter_hits_analysis.json'']"

definition pitcherAnalysisFile :: "string list \<Rightarrow> string list" where
  "pitcherAnalysisFile cwd = butlast cwd @ [''analysis'', ''pitcher_strikeout_analysis.json'']"

text \<open>
  The two kinds of response of a read endpoint: the generic error with the server-error
  status, and the decoded collection.
\<close>

definition serverError :: "string \<Rightarrow> 'j data_body response" where
  "serverError msg = \<lparr>status = 500, body = ErrorPayload msg\<rparr>"

definition okData :: "'j \<Rightarrow> 'j data_body response" where
  "okData d = \<lparr>status = 200, body = Data d\<rparr>"

text \<open>Two states hold the same three collections.\<close>

definition sameCollections :: "DashboardState \<Rightarrow> DashboardState \<Rightarrow> bool" where
  "sameCollections s t =
     (playerProjections t = playerProjections s \<and> batterAnalysis t = batterAnalysis s
      \<and> pitcherAnalysis t = pitcherAnalysis s)"

section \<open>Example data\<close>

text \<open>Rows for the concrete instances below; the fields that no view reads are fixed.\<close>

definition projection :: "string \<Rightarrow> string \<Rightarrow> string \<Rightarrow> PlayerProjection" where
  "projection player game hits =
     \<lparr>PLAYER = player, TEAM = ''NYY'', GAME = game, PlayerProjection.POS = ''1B'',
      INN = ''-'', K = ''-'', HA = ''-'', ER = ''-'', BBI = ''-'', RBI = ''0.6'', R = ''0.5'',
      H = hits\<rparr>"

definition batter :: "string \<Rightarrow> string \<Rightarrow> string \<Rightarrow> real \<Rightarrow> BatterAnalysis" where
  "batter player game confidence edgePercentage =
     \<lparr>PLAYER = player, TEAM = ''NYY'', GAME = game, OPTIMAL_ALT_LINE = 0.5, EDGE = 0.5,
      EDGE_PERCENTAGE = edgePercentage, CONFIDENCE = confidence,
      RECOMMENDATION = ''Over 0.5'', POS = ''1B'', H_PROJECTION = 1\<rparr>"

definition pitcher :: "string \<Rightarrow> string \<Rightarrow> string \<Rightarrow> real \<Rightarrow> PitcherAnalysis" where
  "pitcher player game confidence edgePercentage =
     \<lparr>PLAYER = player, TEAM = ''BOS'', GAME = game, OPTIMAL_ALT_LINE = 5.5, EDGE = 1,
      EDGE_PERCENTAGE = edgePercentage, CONFIDENCE = confidence,
      RECOMMENDATION = ''Over 5.5'', K_PROJECTION = 6.5\<rparr>"

text \<open>
  \<^verbatim>\<open>parseFloat\<close> at the strings of the examples: the binary64 numbers nearest to 2.3, 1.05
  and 1.1 for the three literals, and \<open>NaN\<close> for the empty string. The examples hold no
  other hit value but the placeholder, which the code does not parse.
\<close>

definition exampleParseFloat :: "string \<Rightarrow> number" where
  "exampleParseFloat field =
     (if field = ''2.3'' then Num (2589569785738035 / 1125899906842624)
      else if field = ''1.05'' then Num (4728779608739021 / 4503599627370496)
      else if field = ''1.1'' then Num (2476979795053773 / 2251799813685248)
      else NaN)"

text \<open>A file system with the projections file only, and a decoder that knows one text.\<close>

definition projectionsOnly :: "string list \<Rightarrow> read_result" where
  "projectionsOnly filePath =
     (if filePath = [''srv'', ''data'', ''mlb_player_projections.json'']
      then FileContents ''[1, 2]'' else ReadThrows)"

definition decodeNumbers :: "string \<Rightarrow> nat list option" where
  "decodeNumbers fileContents = (if fileContents = ''[1, 2]'' then Some [1, 2] else None)"

chapter \<open>Properties\<close>

section \<open>Sorting with a comparator\<close>

text \<open>
  When the comparator agrees with a key into a linear order on the elements of the array
  (it is positive exactly when the first element's key is the greater), \<^const>\<open>js_sort\<close>
  is the stable sort by that key.
\<close>

lemma slice_take: "slice 0 n xs = take n xs"
  by (simp add: slice_def)

lemma js_sort_Nil: "js_sort cmp [] = []"
  by (simp add: js_sort_def)

lemma js_sort_Cons: "js_sort cmp (x # xs) = sort_insert cmp x (js_sort cmp xs)"
  by (simp add: js_sort_def)

lemma sort_insert_insort_key:
  assumes "\<And>y. y \<in> set ys \<Longrightarrow> num_pos (cmp x y) \<longleftrightarrow> key y < key x"
  shows "sort_insert cmp x ys = insort_key key x ys"
  using assms by (induction ys) (auto simp: not_le)

lemma js_sort_sort_key:
  assumes "\<And>x y. x \<in> set xs \<Longrightarrow> y \<in> set xs \<Longrightarrow> num_pos (cmp x y) \<longleftrightarrow> key y < key x"
  shows "js_sort cmp xs = sort_key key xs"
  using assms
proof (induction xs)
  case Nil
  show ?case by (simp add: js_sort_Nil)
next
  case (Cons x xs)
  have IH: "js_sort cmp xs = sort_key key xs"
    using Cons by simp
  have "sort_insert cmp x (sort_key key xs) = insort_key key x (sort_key key xs)"
    by (rule sort_insert_insort_key) (simp add: Cons.prems)
  then show ?case
    by (simp add: js_sort_Cons IH)
qed

lemma sorted_take_sort_key: "sorted (map key (take n (sort_key key xs)))"
  by (simp add: take_map [symmetric] sorted_wrt_take)

lemma sorted_map_nth_Suc:
  assumes "sorted (map key xs)" "Suc i < length xs"
  shows "key (xs ! i) \<le> key (xs ! Suc i)"
proof -
  have "map key xs ! i \<le> map key xs ! Suc i"
    by (rule sorted_nth_mono [OF assms(1)]) (use assms(2) in simp_all)
  then show ?thesis
    using assms(2) by simp
qed

text \<open>
  Whatever the comparator returns, the sort only rearranges: no row is lost or repeated.
\<close>

lemma mset_sort_insert: "mset (sort_insert cmp x ys) = add_mset x (mset ys)"
  by (induction ys) simp_all

lemma mset_js_sort: "mset (js_sort cmp xs) = mset xs"
  by (induction xs) (simp_all add: js_sort_Nil js_sort_Cons mset_sort_insert)

lemma set_js_sort: "set (js_sort cmp xs) = set xs"
  using mset_js_sort [of cmp xs] by (metis set_mset_mset)

lemma length_js_sort: "length (js_sort cmp xs) = length xs"
  using mset_js_sort [of cmp xs] by (metis size_mset)

text \<open>
  The choice of the sorting algorithm does not matter where the comparator agrees with a
  key: an array that is a rearrangement of the input, ascending in the key and with rows
  of equal key in their former order, is the array that \<^const>\<open>js_sort\<close> computes.
\<close>

lemma js_sort_determined:
  assumes "\<And>x y. x \<in> set xs \<Longrightarrow> y \<in> set xs \<Longrightarrow> num_pos (cmp x y) \<longleftrightarrow> key y < key x"
    and "mset ys = mset xs"
    and "sorted (map key ys)"
    and "\<And>k. k \<in> set ys \<Longrightarrow>
           filter (\<lambda>x. key k = key x) ys = filter (\<lambda>x. key k = key x) xs"
  shows "ys = js_sort cmp xs"
proof -
  have "sort_key key xs = ys"
    using assms(2) assms(4) assms(3) by (rule properties_for_sort_key)
  moreover have "js_sort cmp xs = sort_key key xs"
    using assms(1) by (rule js_sort_sort_key)
  ultimately show ?thesis
    by simp
qed

section \<open>The selectable games\<close>

lemma set_add_distinct: "distinct seen \<Longrightarrow> distinct (set_add seen x)"
  by (simp add: set_add_def)

lemma set_set_add: "set (set_add seen x) = insert x (set seen)"
  by (auto simp: set_add_def)

lemma foldl_set_add:
  "distinct seen \<Longrightarrow>
     distinct (foldl set_add seen xs) \<and> set (foldl set_add seen xs) = set seen \<union> set xs"
  by (induction xs arbitrary: seen) (simp_all add: set_add_distinct set_set_add)

lemma array_from_set_props: "distinct (array_from_set xs) \<and> set (array_from_set xs) = set xs"
  using foldl_set_add [of "[]" xs] by (simp add: array_from_set_def)

lemma defaultCompare_key: "num_pos (defaultCompare x y) \<longleftrightarrow> y < x"
  by (auto simp: defaultCompare_def)

lemma js_sort_default: "js_sort defaultCompare xs = sort xs"
  by (rule js_sort_sort_key) (rule defaultCompare_key)

lemma sort_distinct:
  assumes "distinct xs"
  shows "sort xs = sorted_list_of_set (set xs)"
  using assms by (simp add: sorted_list_of_set_sort_remdups distinct_remdups_id)

text \<open>
  Claim C9. The selectable games are the game identifiers of the three collections taken
  together, without the empty string and without the placeholder \<^verbatim>\<open>-\<close>, each once, in
  ascending lexicographic order: the sorted list of that set.
\<close>

theorem all_games_sorted_union:
  "allGames pp ba pa =
     sorted_list_of_set ((GAME ` set pp \<union> GAME ` set ba \<union> GAME ` set pa) - {[], ''-''})"
proof -
  let ?all = "map GAME pp @ map GAME ba @ map GAME pa"
  let ?kept = "filter (\<lambda>game. game \<noteq> [] \<and> game \<noteq> ''-'') (array_from_set ?all)"
  have d: "distinct ?kept"
    using array_from_set_props [of ?all] by simp
  have s: "set ?kept = (GAME ` set pp \<union> GAME ` set ba \<union> GAME ` set pa) - {[], ''-''}"
    using array_from_set_props [of ?all] by auto
  have "allGames pp ba pa = sort ?kept"
    by (simp add: allGames_def js_sort_default)
  also have "\<dots> = sorted_list_of_set (set ?kept)"
    using d by (rule sort_distinct)
  finally show ?thesis
    by (simp only: s)
qed

text \<open>
  An instance: the code's list, computed, is by the theorem the sorted list of the set;
  duplicates, the empty string and the placeholder are gone.
\<close>

theorem all_games_sorted_union_witness:
  "sorted_list_of_set
     ((GAME ` set [projection ''P1'' ''NYY@BOS'' ''1.2'', projection ''P2'' ''-'' ''0.9'']
       \<union> GAME ` set [batter ''B1'' ''LAD@SF'' ''High'' 12.5, batter ''B2'' ''NYY@BOS'' ''Low'' 3]
       \<union> GAME ` set [pitcher ''K1'' [] ''High'' 7, pitcher ''K2'' ''CHC@STL'' ''Medium'' 2])
      - {[], ''-''})
   = [''CHC@STL'', ''LAD@SF'', ''NYY@BOS'']"
proof -
  have "allGames
          [projection ''P1'' ''NYY@BOS'' ''1.2'', projection ''P2'' ''-'' ''0.9'']
          [batter ''B1'' ''LAD@SF'' ''High'' 12.5, batter ''B2'' ''NYY@BOS'' ''Low'' 3]
          [pitcher ''K1'' [] ''High'' 7, pitcher ''K2'' ''CHC@STL'' ''Medium'' 2]
        = [''CHC@STL'', ''LAD@SF'', ''NYY@BOS'']"
    by (simp add: allGames_def array_from_set_def set_add_def js_sort_def defaultCompare_def
        projection_def batter_def pitcher_def)
  then show ?thesis
    by (simp only: all_games_sorted_union)
qed

section \<open>Filtering by the selected games\<close>

text \<open>
  Claim C3. With no game selected each filtered collection is the collection itself.
  With a selection it is the rows whose game is selected, in their order: every row of
  the result is a row of the collection with a selected game, every such row is in the
  result, and the result is a subsequence of the collection. This holds for projections,
  batter analyses and pitcher analyses alike.
\<close>

theorem filtering_by_selected_games:
  "(sel = [] \<longrightarrow>
      filteredPlayerProjections sel pp = pp \<and> filteredBatterAnalysis sel ba = ba
      \<and> filteredPitcherAnalysis sel pa = pa)
   \<and> (sel \<noteq> [] \<longrightarrow>
        filteredPlayerProjections sel pp = filter (\<lambda>r. GAME r \<in> set sel) pp
        \<and> filteredBatterAnalysis sel ba = filter (\<lambda>r. GAME r \<in> set sel) ba
        \<and> filteredPitcherAnalysis sel pa = filter (\<lambda>r. GAME r \<in> set sel) pa
        \<and> set (filteredPlayerProjections sel pp) = {r \<in> set pp. GAME r \<in> set sel}
        \<and> set (filteredBatterAnalysis sel ba) = {r \<in> set ba. GAME r \<in> set sel}
        \<and> set (filteredPitcherAnalysis sel pa) = {r \<in> set pa. GAME r \<in> set sel})
   \<and> subseq (filteredPlayerProjections sel pp) pp
   \<and> subseq (filteredBatterAnalysis sel ba) ba
   \<and> subseq (filteredPitcherAnalysis sel pa) pa"
  by (simp add: filteredPlayerProjections_def filteredBatterAnalysis_def
      filteredPitcherAnalysis_def array_includes_def)

text \<open>
  Two instances: an empty selection, and a selection of one game that keeps the first
  and the third batter in that order.
\<close>

theorem filtering_by_selected_games_witness:
  "filteredBatterAnalysis []
     [batter ''B1'' ''NYY@BOS'' ''High'' 12.5, batter ''B2'' ''LAD@SF'' ''Low'' 3]
   = [batter ''B1'' ''NYY@BOS'' ''High'' 12.5, batter ''B2'' ''LAD@SF'' ''Low'' 3]
   \<and> [''NYY@BOS''] \<noteq> []
   \<and> filteredBatterAnalysis [''NYY@BOS'']
       [batter ''B1'' ''NYY@BOS'' ''High'' 12.5, batter ''B2'' ''LAD@SF'' ''Low'' 3,
        batter ''B3'' ''NYY@BOS'' ''Avoid'' (- 2)]
     = [batter ''B1'' ''NYY@BOS'' ''High'' 12.5, batter ''B3'' ''NYY@BOS'' ''Avoid'' (- 2)]
   \<and> filteredPlayerProjections [''NYY@BOS''] [projection ''P1'' ''LAD@SF'' ''1.2''] = []
   \<and> filteredPitcherAnalysis [''NYY@BOS''] [pitcher ''K1'' ''NYY@BOS'' ''High'' 7]
     = [pitcher ''K1'' ''NYY@BOS'' ''High'' 7]"
  using
    filtering_by_selected_games [of "[]" "[]"
      "[batter ''B1'' ''NYY@BOS'' ''High'' 12.5, batter ''B2'' ''LAD@SF'' ''Low'' 3]" "[]"]
    filtering_by_selected_games [of "[''NYY@BOS'']" "[projection ''P1'' ''LAD@SF'' ''1.2'']"
      "[batter ''B1'' ''NYY@BOS'' ''High'' 12.5, batter ''B2'' ''LAD@SF'' ''Low'' 3,
        batter ''B3'' ''NYY@BOS'' ''Avoid'' (- 2)]"
      "[pitcher ''K1'' ''NYY@BOS'' ''High'' 7]"]
  by (simp add: batter_def projection_def pitcher_def)

section \<open>Top pitcher opportunities\<close>

lemma comparePitchers_key:
  "num_pos (comparePitchers a b) \<longleftrightarrow> - EDGE_PERCENTAGE b < - EDGE_PERCENTAGE a"
  by (simp add: comparePitchers_def)

lemma topPitcherOpportunities_eq:
  "topPitcherOpportunities sel pa = spec_topPitcherOpportunities (filteredPitcherAnalysis sel pa)"
proof -
  have "js_sort comparePitchers xs = sort_key (\<lambda>p. - EDGE_PERCENTAGE p) xs" for xs
    by (rule js_sort_sort_key) (rule comparePitchers_key)
  then show ?thesis
    by (simp add: topPitcherOpportunities_def spec_topPitcherOpportunities_def slice_take)
qed

lemma spec_topPitcherOpportunities_confident:
  "list_all (\<lambda>p. CONFIDENCE p \<in> {''High'', ''Medium''}) (spec_topPitcherOpportunities rows)"
  by (auto simp: spec_topPitcherOpportunities_def list_all_iff dest: in_set_takeD)

lemma spec_topPitcherOpportunities_sorted:
  "sorted (map (\<lambda>p. - EDGE_PERCENTAGE p) (spec_topPitcherOpportunities rows))"
  by (simp add: spec_topPitcherOpportunities_def take_map [symmetric] sorted_wrt_take)

lemma length_spec_topPitcherOpportunities: "length (spec_topPitcherOpportunities rows) \<le> 5"
  by (simp add: spec_topPitcherOpportunities_def)

text \<open>
  Claim C6. The top pitcher opportunities are the rows of the filtered pitcher collection
  whose confidence is High or Medium, sorted (stably) by edge percentage descending, cut
  to the first 5. Hence every entry has confidence High or Medium, the edge percentages
  do not increase along the list, and there are at most 5 entries.
\<close>

theorem top_pitcher_opportunities:
  "topPitcherOpportunities sel pa = spec_topPitcherOpportunities (filteredPitcherAnalysis sel pa)
   \<and> list_all (\<lambda>p. CONFIDENCE p \<in> {''High'', ''Medium''}) (topPitcherOpportunities sel pa)
   \<and> sorted (map (\<lambda>p. - EDGE_PERCENTAGE p) (topPitcherOpportunities sel pa))
   \<and> length (topPitcherOpportunities sel pa) \<le> 5"
  unfolding topPitcherOpportunities_eq
  by (intro conjI refl spec_topPitcherOpportunities_confident
      spec_topPitcherOpportunities_sorted length_spec_topPitcherOpportunities)

text \<open>
  An instance with one game selected: the Low row and the row of another game are left
  out, and the two rows with edge percentage 9 keep their order.
\<close>

theorem top_pitcher_opportunities_witness:
  "topPitcherOpportunities [''NYY@BOS'']
     [pitcher ''P1'' ''NYY@BOS'' ''Medium'' 4, pitcher ''P2'' ''NYY@BOS'' ''Low'' 30,
      pitcher ''P3'' ''LAD@SF'' ''High'' 20, pitcher ''P4'' ''NYY@BOS'' ''High'' 9,
      pitcher ''P5'' ''NYY@BOS'' ''Medium'' 9]
   = [pitcher ''P4'' ''NYY@BOS'' ''High'' 9, pitcher ''P5'' ''NYY@BOS'' ''Medium'' 9,
      pitcher ''P1'' ''NYY@BOS'' ''Medium'' 4]"
  using top_pitcher_opportunities [of "[''NYY@BOS'']"
     "[pitcher ''P1'' ''NYY@BOS'' ''Medium'' 4, pitcher ''P2'' ''NYY@BOS'' ''Low'' 30,
      pitcher ''P3'' ''LAD@SF'' ''High'' 20, pitcher ''P4'' ''NYY@BOS'' ''High'' 9,
      pitcher ''P5'' ''NYY@BOS'' ''Medium'' 9]"]
  by (simp add: spec_topPitcherOpportunities_def filteredPitcherAnalysis_def array_includes_def
      pitcher_def)

section \<open>Top batter opportunities\<close>

text \<open>
  For a label that names nothing inherited from \<^verbatim>\<open>Object.prototype\<close> the looked-up value is
  the confidence rank, and the comparator agrees with the key of rank and edge
  percentage.
\<close>

lemma confidenceValue_rank:
  assumes "c \<notin> set objectPrototypeKeys"
  shows "confidenceValue c = Num (real_of_int (confidenceRank c))"
  using assms
  by (simp add: confidenceValue_def getProperty_def confidenceOrder_def js_or_def
      confidenceRank_def)

lemma compareBatters_key:
  assumes "ordinaryLabel a" "ordinaryLabel b"
  shows "num_pos (compareBatters a b) \<longleftrightarrow> batterKey b < batterKey a"
  using assms
  by (auto simp: compareBatters_def confidenceValue_rank batterKey_def Let_def ordinaryLabel_def)

lemma batterKey_le:
  "batterKey a \<le> batterKey b \<longleftrightarrow>
     confidenceRank (CONFIDENCE b) < confidenceRank (CONFIDENCE a)
     \<or> (confidenceRank (CONFIDENCE a) = confidenceRank (CONFIDENCE b)
         \<and> EDGE_PERCENTAGE b \<le> EDGE_PERCENTAGE a)"
  by (auto simp: batterKey_def)

lemma topBatterOpportunities_eq:
  assumes "list_all ordinaryLabel ba"
  shows "topBatterOpportunities sel ba = spec_topBatterOpportunities (filteredBatterAnalysis sel ba)"
proof -
  let ?f = "filter (\<lambda>b. 0 < EDGE_PERCENTAGE b) (filteredBatterAnalysis sel ba)"
  have sub: "set ?f \<subseteq> set ba"
    by (auto simp: filteredBatterAnalysis_def)
  have "js_sort compareBatters ?f = sort_key batterKey ?f"
  proof (rule js_sort_sort_key)
    fix x y
    assume "x \<in> set ?f" "y \<in> set ?f"
    with sub assms have "ordinaryLabel x" "ordinaryLabel y"
      by (auto simp: list_all_iff)
    then show "num_pos (compareBatters x y) \<longleftrightarrow> batterKey y < batterKey x"
      by (rule compareBatters_key)
  qed
  then show ?thesis
    by (simp add: topBatterOpportunities_def spec_topBatterOpportunities_def slice_take)
qed

lemma spec_topBatterOpportunities_consecutive:
  assumes "Suc i < length (spec_topBatterOpportunities rows)"
  shows "batterKey (spec_topBatterOpportunities rows ! i)
          \<le> batterKey (spec_topBatterOpportunities rows ! Suc i)"
  using assms unfolding spec_topBatterOpportunities_def
  by (intro sorted_map_nth_Suc sorted_take_sort_key)

lemma spec_topBatterOpportunities_positive:
  "list_all (\<lambda>b. 0 < EDGE_PERCENTAGE b) (spec_topBatterOpportunities rows)"
  by (auto simp: spec_topBatterOpportunities_def list_all_iff dest: in_set_takeD)

text \<open>
  The statement of claim C1 for collections whose labels name nothing inherited: the top
  batter opportunities are the rows with positive edge percentage, sorted by rank and
  then edge percentage, both descending, cut to 5; consecutive entries are in that order
  and every entry has a positive edge percentage.
\<close>

lemma top_batter_opportunities_ordinary_labels:
  assumes "list_all ordinaryLabel ba"
  shows "topBatterOpportunities sel ba = spec_topBatterOpportunities (filteredBatterAnalysis sel ba)"
    and "Suc i < length (topBatterOpportunities sel ba) \<Longrightarrow>
           confidenceRank (CONFIDENCE (topBatterOpportunities sel ba ! Suc i))
             < confidenceRank (CONFIDENCE (topBatterOpportunities sel ba ! i))
           \<or> (confidenceRank (CONFIDENCE (topBatterOpportunities sel ba ! i))
                = confidenceRank (CONFIDENCE (topBatterOpportunities sel ba ! Suc i))
               \<and> EDGE_PERCENTAGE (topBatterOpportunities sel ba ! Suc i)
                  \<le> EDGE_PERCENTAGE (topBatterOpportunities sel ba ! i))"
    and "list_all (\<lambda>b. 0 < EDGE_PERCENTAGE b) (topBatterOpportunities sel ba)"
proof -
  show "topBatterOpportunities sel ba = spec_topBatterOpportunities (filteredBatterAnalysis sel ba)"
    by (rule topBatterOpportunities_eq [OF assms])
  show "list_all (\<lambda>b. 0 < EDGE_PERCENTAGE b) (topBatterOpportunities sel ba)"
    by (simp only: topBatterOpportunities_eq [OF assms] spec_topBatterOpportunities_positive)
  assume "Suc i < length (topBatterOpportunities sel ba)"
  then have "batterKey (topBatterOpportunities sel ba ! i)
               \<le> batterKey (topBatterOpportunities sel ba ! Suc i)"
    unfolding topBatterOpportunities_eq [OF assms]
    by (rule spec_topBatterOpportunities_consecutive)
  then show "confidenceRank (CONFIDENCE (topBatterOpportunities sel ba ! Suc i))
             < confidenceRank (CONFIDENCE (topBatterOpportunities sel ba ! i))
           \<or> (confidenceRank (CONFIDENCE (topBatterOpportunities sel ba ! i))
                = confidenceRank (CONFIDENCE (topBatterOpportunities sel ba ! Suc i))
               \<and> EDGE_PERCENTAGE (topBatterOpportunities sel ba ! Suc i)
                  \<le> EDGE_PERCENTAGE (topBatterOpportunities sel ba ! i))"
    by (simp only: batterKey_le)
qed

lemma confidenceValue_simps:
  "confidenceValue ''High'' = Num 3" "confidenceValue ''Medium'' = Num 2"
  "confidenceValue ''Low'' = Num 1" "confidenceValue ''Avoid'' = Num 0"
  "confidenceValue ''constructor'' = NaN"
  by (simp_all add: confidenceValue_def getProperty_def confidenceOrder_def js_or_def
      objectPrototypeKeys_def)

text \<open>
  Claim C1 at a label that an object literal inherits. The claim gives every unknown
  label rank 0, so of two rows with edge percentage 5 the one labelled High comes before
  the one labelled \<^verbatim>\<open>constructor\<close>. In the code \<^verbatim>\<open>confidenceOrder['constructor']\<close> is a
  function, the difference of the ranks is \<open>NaN\<close>, the comparator returns it, and the
  sort leaves the two rows as they were: the list of the code and the list of the claim
  differ.
\<close>

theorem top_batter_inherited_label:
  "topBatterOpportunities []
     [batter ''A'' ''NYY@BOS'' ''constructor'' 5, batter ''B'' ''NYY@BOS'' ''High'' 5]
   = [batter ''A'' ''NYY@BOS'' ''constructor'' 5, batter ''B'' ''NYY@BOS'' ''High'' 5]
   \<and> spec_topBatterOpportunities
       [batter ''A'' ''NYY@BOS'' ''constructor'' 5, batter ''B'' ''NYY@BOS'' ''High'' 5]
     = [batter ''B'' ''NYY@BOS'' ''High'' 5, batter ''A'' ''NYY@BOS'' ''constructor'' 5]"
  by (simp add: topBatterOpportunities_def filteredBatterAnalysis_def slice_def js_sort_def
      compareBatters_def confidenceValue_simps spec_topBatterOpportunities_def batterKey_def
      confidenceRank_def batter_def)

section \<open>The projection table\<close>

lemma hitValue_hitCount: "hitValue pf p = hitCount pf p"
  by (simp add: hitValue_def hitCount_def)

text \<open>
  On numbers other than \<open>NaN\<close> the sign of the difference and the comparison agree with
  the key.
\<close>

lemma num_sub_descKey:
  assumes "a \<noteq> NaN" "b \<noteq> NaN"
  shows "num_pos (num_sub b a) \<longleftrightarrow> descKey b < descKey a"
  using assms by (cases a; cases b) simp_all


lemma hitCount_not_NaN:
  assumes "numericOrPlaceholder pf p"
  shows "hitCount pf p \<noteq> NaN"
  using assms by (auto simp: numericOrPlaceholder_def hitCount_def)

lemma compareHits_key:
  assumes "numericOrPlaceholder pf a" "numericOrPlaceholder pf b"
  shows "num_pos (compareHits pf a b) \<longleftrightarrow> descKey (hitCount pf b) < descKey (hitCount pf a)"
  using assms
  by (simp add: compareHits_def hitValue_hitCount num_sub_descKey hitCount_not_NaN)

lemma js_sort_compareHits:
  assumes "list_all (numericOrPlaceholder pf) xs"
  shows "js_sort (compareHits pf) xs = sort_key (\<lambda>p. descKey (hitCount pf p)) xs"
  using assms by (intro js_sort_sort_key compareHits_key) (simp_all add: list_all_iff)







lemma exampleParseFloat_simps:
  "exampleParseFloat ''2.3'' = Num (2589569785738035 / 1125899906842624)"
  "exampleParseFloat ''1.05'' = Num (4728779608739021 / 4503599627370496)"
  "exampleParseFloat ''1.1'' = Num (2476979795053773 / 2251799813685248)"
  "exampleParseFloat [] = NaN"
  by (simp_all add: exampleParseFloat_def)




section \<open>Load\<close>

text \<open>The state after \<^verbatim>\<open>loadData\<close>, by the first block that throws.\<close>

lemma loadData_cases:
  "loadData s rp rb rpi now =
     (if throws rp then s\<lparr>loading := False\<rparr>
      else if throws rb then
        s\<lparr>playerProjections := received (playerProjections s) rp, loading := False\<rparr>
      else if throws rpi then
        s\<lparr>playerProjections := received (playerProjections s) rp,
          batterAnalysis := received (batterAnalysis s) rb, loading := False\<rparr>
      else
        s\<lparr>playerProjections := received (playerProjections s) rp,
          batterAnalysis := received (batterAnalysis s) rb,
          pitcherAnalysis := received (pitcherAnalysis s) rpi,
          lastUpdated := now, loading := False\<rparr>)"
  apply (cases rp rule: throws.cases; cases rb rule: throws.cases; cases rpi rule: throws.cases)
  apply (auto simp: loadData_def loadData_effects_def loadData_try_def run_effects_def
      split: option.splits)
  done

text \<open>The steps of \<^verbatim>\<open>loadData\<close>, by the first block that throws.\<close>

lemma fetchCollection_cases:
  "fetchCollection setter url r =
     (if throws r then ([Fetch url], True) else (Fetch url # stored setter r, False))"
  by (cases "(setter, r)" rule: stored.cases) (auto split: option.splits)

lemma loadData_effects_cases:
  "loadData_effects rp rb rpi now =
     (if throws rp then
        [SetLoading True, Fetch ''/api/data/projections'', SetLoading False]
      else if throws rb then
        [SetLoading True, Fetch ''/api/data/projections''] @ stored SetPlayerProjections rp
        @ [Fetch ''/api/data/batter-analysis'', SetLoading False]
      else if throws rpi then
        [SetLoading True, Fetch ''/api/data/projections''] @ stored SetPlayerProjections rp
        @ [Fetch ''/api/data/batter-analysis''] @ stored SetBatterAnalysis rb
        @ [Fetch ''/api/data/pitcher-analysis'', SetLoading False]
      else
        [SetLoading True, Fetch ''/api/data/projections''] @ stored SetPlayerProjections rp
        @ [Fetch ''/api/data/batter-analysis''] @ stored SetBatterAnalysis rb
        @ [Fetch ''/api/data/pitcher-analysis''] @ stored SetPitcherAnalysis rpi
        @ [SetLastUpdated now, SetLoading False])"
  by (simp add: loadData_effects_def loadData_try_def fetchCollection_cases)

text \<open>
  Claim C4 as stated fails. Take a state that holds one projection from an earlier load
  and no analyses, and let the projections request be rejected (a transport error)
  while the server would answer the other two requests with one row each. After
  \<^verbatim>\<open>loadData\<close> the projections are still the old row (not empty), the batter and
  pitcher collections are still empty (not populated), the time stamp is still empty,
  and the only request made is the one for the projections.
\<close>

theorem load_transport_error_counterexample:
  "playerProjections
     (loadData (initialState\<lparr>playerProjections := [projection ''P0'' ''NYY@BOS'' ''1.2'']\<rparr>)
        Rejected (Resolved True (Some [batter ''B1'' ''NYY@BOS'' ''High'' 12.5]))
        (Resolved True (Some [pitcher ''K1'' ''NYY@BOS'' ''High'' 7])) ''7/4/2025, 1:05:00 PM'')
     = [projection ''P0'' ''NYY@BOS'' ''1.2'']
   \<and> batterAnalysis
     (loadData (initialState\<lparr>playerProjections := [projection ''P0'' ''NYY@BOS'' ''1.2'']\<rparr>)
        Rejected (Resolved True (Some [batter ''B1'' ''NYY@BOS'' ''High'' 12.5]))
        (Resolved True (Some [pitcher ''K1'' ''NYY@BOS'' ''High'' 7])) ''7/4/2025, 1:05:00 PM'')
     = []
   \<and> pitcherAnalysis
     (loadData (initialState\<lparr>playerProjections := [projection ''P0'' ''NYY@BOS'' ''1.2'']\<rparr>)
        Rejected (Resolved True (Some [batter ''B1'' ''NYY@BOS'' ''High'' 12.5]))
        (Resolved True (Some [pitcher ''K1'' ''NYY@BOS'' ''High'' 7])) ''7/4/2025, 1:05:00 PM'')
     = []
   \<and> lastUpdated
     (loadData (initialState\<lparr>playerProjections := [projection ''P0'' ''NYY@BOS'' ''1.2'']\<rparr>)
        Rejected (Resolved True (Some [batter ''B1'' ''NYY@BOS'' ''High'' 12.5]))
        (Resolved True (Some [pitcher ''K1'' ''NYY@BOS'' ''High'' 7])) ''7/4/2025, 1:05:00 PM'')
     = []
   \<and> loadData_effects Rejected (Resolved True (Some [batter ''B1'' ''NYY@BOS'' ''High'' 12.5]))
        (Resolved True (Some [pitcher ''K1'' ''NYY@BOS'' ''High'' 7])) ''7/4/2025, 1:05:00 PM''
     = [SetLoading True, Fetch ''/api/data/projections'', SetLoading False]"
  by (simp add: loadData_def loadData_effects_def loadData_try_def run_effects_def
      initialState_def)

text \<open>
  Claim C4, amended. The three fetches run one after the other in one \<^verbatim>\<open>try\<close> block and
  the loading flag is cleared in every case. A fetch that throws (a rejected request, or
  an \<^verbatim>\<open>ok\<close> response whose body cannot be decoded) ends the block: its collection and
  those of the fetches after it keep their previous contents, the fetches after it are
  not made, and the time is not stamped. A fetch that does not throw stores the decoded
  body when the response is \<^verbatim>\<open>ok\<close> and otherwise leaves its collection at its previous
  contents (empty on the first load), and the next fetch runs. When no fetch throws the
  current time is stamped as last-updated. For each of the four cases the theorem gives
  the state afterwards and the complete list of steps, requests included.
\<close>

theorem load_sequential_fetches:
  "loading (loadData s rp rb rpi now) = False
   \<and> (throws rp \<longrightarrow>
        loadData s rp rb rpi now = s\<lparr>loading := False\<rparr>
        \<and> loadData_effects rp rb rpi now
            = [SetLoading True, Fetch ''/api/data/projections'', SetLoading False])
   \<and> (\<not> throws rp \<and> throws rb \<longrightarrow>
        loadData s rp rb rpi now
          = s\<lparr>playerProjections := received (playerProjections s) rp, loading := False\<rparr>
        \<and> loadData_effects rp rb rpi now
            = [SetLoading True, Fetch ''/api/data/projections'']
              @ stored SetPlayerProjections rp
              @ [Fetch ''/api/data/batter-analysis'', SetLoading False])
   \<and> (\<not> throws rp \<and> \<not> throws rb \<and> throws rpi \<longrightarrow>
        loadData s rp rb rpi now
          = s\<lparr>playerProjections := received (playerProjections s) rp,
              batterAnalysis := received (batterAnalysis s) rb, loading := False\<rparr>
        \<and> loadData_effects rp rb rpi now
            = [SetLoading True, Fetch ''/api/data/projections'']
              @ stored SetPlayerProjections rp
              @ [Fetch ''/api/data/batter-analysis''] @ stored SetBatterAnalysis rb
              @ [Fetch ''/api/data/pitcher-analysis'', SetLoading False])
   \<and> (\<not> throws rp \<and> \<not> throws rb \<and> \<not> throws rpi \<longrightarrow>
        loadData s rp rb rpi now
          = s\<lparr>playerProjections := received (playerProjections s) rp,
              batterAnalysis := received (batterAnalysis s) rb,
              pitcherAnalysis := received (pitcherAnalysis s) rpi,
              lastUpdated := now, loading := False\<rparr>
        \<and> loadData_effects rp rb rpi now
            = [SetLoading True, Fetch ''/api/data/projections'']
              @ stored SetPlayerProjections rp
              @ [Fetch ''/api/data/batter-analysis''] @ stored SetBatterAnalysis rb
              @ [Fetch ''/api/data/pitcher-analysis''] @ stored SetPitcherAnalysis rpi
              @ [SetLastUpdated now, SetLoading False])"
proof -
  have flag: "loading (loadData s rp rb rpi now) = False"
    by (simp add: loadData_cases)
  have first:
    "loadData s rp rb rpi now = s\<lparr>loading := False\<rparr>
     \<and> loadData_effects rp rb rpi now
         = [SetLoading True, Fetch ''/api/data/projections'', SetLoading False]"
    if "throws rp"
    using that by (simp add: loadData_cases loadData_effects_cases)
  have second:
    "loadData s rp rb rpi now
       = s\<lparr>playerProjections := received (playerProjections s) rp, loading := False\<rparr>
     \<and> loadData_effects rp rb rpi now
         = [SetLoading True, Fetch ''/api/data/projections'']
           @ stored SetPlayerProjections rp
           @ [Fetch ''/api/data/batter-analysis'', SetLoading False]"
    if "\<not> throws rp \<and> throws rb"
    using that by (simp add: loadData_cases loadData_effects_cases)
  have third:
    "loadData s rp rb rpi now
       = s\<lparr>playerProjections := received (playerProjections s) rp,
           batterAnalysis := received (batterAnalysis s) rb, loading := False\<rparr>
     \<and> loadData_effects rp rb rpi now
         = [SetLoading True, Fetch ''/api/data/projections'']
           @ stored SetPlayerProjections rp
           @ [Fetch ''/api/data/batter-analysis''] @ stored SetBatterAnalysis rb
           @ [Fetch ''/api/data/pitcher-analysis'', SetLoading False]"
    if "\<not> throws rp \<and> \<not> throws rb \<and> throws rpi"
    using that by (simp add: loadData_cases loadData_effects_cases)
  have none:
    "loadData s rp rb rpi now
       = s\<lparr>playerProjections := received (playerProjections s) rp,
           batterAnalysis := received (batterAnalysis s) rb,
           pitcherAnalysis := received (pitcherAnalysis s) rpi,
           lastUpdated := now, loading := False\<rparr>
     \<and> loadData_effects rp rb rpi now
         = [SetLoading True, Fetch ''/api/data/projections'']
           @ stored SetPlayerProjections rp
           @ [Fetch ''/api/data/batter-analysis''] @ stored SetBatterAnalysis rb
           @ [Fetch ''/api/data/pitcher-analysis''] @ stored SetPitcherAnalysis rpi
           @ [SetLastUpdated now, SetLoading False]"
    if "\<not> throws rp \<and> \<not> throws rb \<and> \<not> throws rpi"
    using that by (simp add: loadData_cases loadData_effects_cases)
  show ?thesis
    using flag first second third none by blast
qed

text \<open>
  Instances for each case: a rejected first request; a non-\<^verbatim>\<open>ok\<close> first response followed
  by an undecodable second body, after which the pitcher endpoint is not requested; a
  rejected third request after two stored bodies; and a load in which only the batter
  endpoint answers with an error status.
\<close>

theorem load_sequential_fetches_witness:
  "throws (Rejected :: PlayerProjection list fetch_result)
   \<and> loadData initialState Rejected (Resolved True (Some [batter ''B1'' ''NYY@BOS'' ''High'' 12.5]))
       (Resolved True (Some [pitcher ''K1'' ''NYY@BOS'' ''High'' 7])) ''1:05:00 PM''
     = initialState\<lparr>loading := False\<rparr>
   \<and> \<not> throws (Resolved False None :: PlayerProjection list fetch_result)
   \<and> throws (Resolved True None :: BatterAnalysis list fetch_result)
   \<and> loadData initialState (Resolved False None) (Resolved True None)
       (Resolved True (Some [pitcher ''K1'' ''NYY@BOS'' ''High'' 7])) ''1:05:00 PM''
     = initialState\<lparr>loading := False\<rparr>
   \<and> loadData_effects (Resolved False None) (Resolved True None)
       (Resolved True (Some [pitcher ''K1'' ''NYY@BOS'' ''High'' 7])) ''1:05:00 PM''
     = [SetLoading True, Fetch ''/api/data/projections'', Fetch ''/api/data/batter-analysis'',
        SetLoading False]
   \<and> \<not> throws (Resolved True (Some [projection ''P1'' ''NYY@BOS'' ''1.2'']))
   \<and> \<not> throws (Resolved True (Some [batter ''B1'' ''NYY@BOS'' ''High'' 12.5]))
   \<and> throws (Rejected :: PitcherAnalysis list fetch_result)
   \<and> loadData initialState (Resolved True (Some [projection ''P1'' ''NYY@BOS'' ''1.2'']))
       (Resolved True (Some [batter ''B1'' ''NYY@BOS'' ''High'' 12.5])) Rejected ''1:05:00 PM''
     = initialState\<lparr>playerProjections := [projection ''P1'' ''NYY@BOS'' ''1.2''],
         batterAnalysis := [batter ''B1'' ''NYY@BOS'' ''High'' 12.5], loading := False\<rparr>
   \<and> loadData_effects (Resolved True (Some [projection ''P1'' ''NYY@BOS'' ''1.2'']))
       (Resolved True (Some [batter ''B1'' ''NYY@BOS'' ''High'' 12.5])) Rejected ''1:05:00 PM''
     = [SetLoading True, Fetch ''/api/data/projections'',
        SetPlayerProjections [projection ''P1'' ''NYY@BOS'' ''1.2''],
        Fetch ''/api/data/batter-analysis'',
        SetBatterAnalysis [batter ''B1'' ''NYY@BOS'' ''High'' 12.5],
        Fetch ''/api/data/pitcher-analysis'', SetLoading False]
   \<and> \<not> throws (Resolved False None :: BatterAnalysis list fetch_result)
   \<and> \<not> throws (Resolved True (Some [pitcher ''K1'' ''NYY@BOS'' ''High'' 7]))
   \<and> loadData initialState (Resolved True (Some [projection ''P1'' ''NYY@BOS'' ''1.2'']))
       (Resolved False None) (Resolved True (Some [pitcher ''K1'' ''NYY@BOS'' ''High'' 7]))
       ''1:05:00 PM''
     = initialState\<lparr>playerProjections := [projection ''P1'' ''NYY@BOS'' ''1.2''],
         pitcherAnalysis := [pitcher ''K1'' ''NYY@BOS'' ''High'' 7],
         lastUpdated := ''1:05:00 PM'', loading := False\<rparr>
   \<and> loadData_effects (Resolved True (Some [projection ''P1'' ''NYY@BOS'' ''1.2'']))
       (Resolved False None) (Resolved True (Some [pitcher ''K1'' ''NYY@BOS'' ''High'' 7]))
       ''1:05:00 PM''
     = [SetLoading True, Fetch ''/api/data/projections'',
        SetPlayerProjections [projection ''P1'' ''NYY@BOS'' ''1.2''],
        Fetch ''/api/data/batter-analysis'', Fetch ''/api/data/pitcher-analysis'',
        SetPitcherAnalysis [pitcher ''K1'' ''NYY@BOS'' ''High'' 7],
        SetLastUpdated ''1:05:00 PM'', SetLoading False]"
  using
    load_sequential_fetches [of initialState Rejected
      "Resolved True (Some [batter ''B1'' ''NYY@BOS'' ''High'' 12.5])"
      "Resolved True (Some [pitcher ''K1'' ''NYY@BOS'' ''High'' 7])" "''1:05:00 PM''"]
    load_sequential_fetches [of initialState "Resolved False None" "Resolved True None"
      "Resolved True (Some [pitcher ''K1'' ''NYY@BOS'' ''High'' 7])" "''1:05:00 PM''"]
    load_sequential_fetches [of initialState
      "Resolved True (Some [projection ''P1'' ''NYY@BOS'' ''1.2''])"
      "Resolved True (Some [batter ''B1'' ''NYY@BOS'' ''High'' 12.5])" Rejected "''1:05:00 PM''"]
    load_sequential_fetches [of initialState
      "Resolved True (Some [projection ''P1'' ''NYY@BOS'' ''1.2''])" "Resolved False None"
      "Resolved True (Some [pitcher ''K1'' ''NYY@BOS'' ''High'' 7])" "''1:05:00 PM''"]
  by (simp add: initialState_def)


section \<open>Refresh\<close>

lemma refreshData_effects_cases:
  "refreshData_effects r rp rb rpi now =
     [SetUpdating True, Fetch ''/api/update'']
     @ (case r of
          Rejected \<Rightarrow> [Alert ''Error updating data. Please try again.'']
        | Resolved ok None \<Rightarrow> [Alert ''Error updating data. Please try again.'']
        | Resolved ok (Some res) \<Rightarrow>
            if success res then loadData_effects rp rb rpi now
            else [Alert (''Data update failed: '' @ message res)])
     @ [SetUpdating False]"
  by (simp add: refreshData_effects_def)

lemma refreshData_effects_ends:
  "take 2 (refreshData_effects r rp rb rpi now) = [SetUpdating True, Fetch ''/api/update'']
   \<and> last (refreshData_effects r rp rb rpi now) = SetUpdating False"
  by (simp add: refreshData_effects_def)

lemma refreshData_success:
  assumes "success res"
  shows "refreshData s (Resolved ok (Some res)) rp rb rpi now
           = (loadData (s\<lparr>updating := True\<rparr>) rp rb rpi now)\<lparr>updating := False\<rparr>"
  using assms
  by (simp add: refreshData_def refreshData_effects_def loadData_def run_effects_def)

lemma refreshData_failure:
  assumes "\<not> success res"
  shows "refreshData s (Resolved ok (Some res)) rp rb rpi now = s\<lparr>updating := False\<rparr>"
  using assms
  by (simp add: refreshData_def refreshData_effects_def run_effects_def)

lemma refreshData_catch:
  assumes "r = Rejected \<or> r = Resolved ok None"
  shows "refreshData s r rp rb rpi now = s\<lparr>updating := False\<rparr>"
  using assms
  by (auto simp: refreshData_def refreshData_effects_def run_effects_def)

lemma updating_refreshData: "updating (refreshData s r rp rb rpi now) = False"
proof (cases r)
  case Rejected
  then show ?thesis by (simp add: refreshData_catch)
next
  case (Resolved ok decoded)
  show ?thesis
  proof (cases decoded)
    case None
    with Resolved show ?thesis by (simp add: refreshData_catch)
  next
    case (Some res)
    with Resolved show ?thesis
      by (cases "success res") (simp_all add: refreshData_success refreshData_failure)
  qed
qed

text \<open>
  Claim C8. \<^verbatim>\<open>refreshData\<close> first sets the updating flag and calls the refresh trigger,
  and its last step clears the flag, so the flag is clear afterwards on every path. On
  reported success the steps in between are those of \<^verbatim>\<open>loadData\<close>. On reported failure
  the user is alerted with the reported message, and on a transport error (or an
  undecodable response) with a fixed message; in both cases nothing else happens: the
  state is the old one with the flag clear, and the three collections are unchanged.
\<close>

theorem refresh_operation:
  "take 2 (refreshData_effects r rp rb rpi now) = [SetUpdating True, Fetch ''/api/update'']
   \<and> last (refreshData_effects r rp rb rpi now) = SetUpdating False
   \<and> updating (refreshData s r rp rb rpi now) = False
   \<and> (success res \<longrightarrow>
        refreshData_effects (Resolved ok (Some res)) rp rb rpi now
          = [SetUpdating True, Fetch ''/api/update''] @ loadData_effects rp rb rpi now
            @ [SetUpdating False]
        \<and> refreshData s (Resolved ok (Some res)) rp rb rpi now
          = (loadData (s\<lparr>updating := True\<rparr>) rp rb rpi now)\<lparr>updating := False\<rparr>)
   \<and> (\<not> success res \<longrightarrow>
        refreshData_effects (Resolved ok (Some res)) rp rb rpi now
          = [SetUpdating True, Fetch ''/api/update'',
             Alert (''Data update failed: '' @ message res), SetUpdating False]
        \<and> refreshData s (Resolved ok (Some res)) rp rb rpi now = s\<lparr>updating := False\<rparr>
        \<and> sameCollections s (refreshData s (Resolved ok (Some res)) rp rb rpi now))
   \<and> (r = Rejected \<or> r = Resolved ok None \<longrightarrow>
        refreshData_effects r rp rb rpi now
          = [SetUpdating True, Fetch ''/api/update'',
             Alert ''Error updating data. Please try again.'', SetUpdating False]
        \<and> refreshData s r rp rb rpi now = s\<lparr>updating := False\<rparr>
        \<and> sameCollections s (refreshData s r rp rb rpi now))"
  using refreshData_effects_ends [of r rp rb rpi now] updating_refreshData [of s r rp rb rpi now]
    refreshData_success [of res s ok rp rb rpi now] refreshData_failure [of res s ok rp rb rpi now]
    refreshData_catch [of r ok s rp rb rpi now]
  by (auto simp: refreshData_effects_cases sameCollections_def)

text \<open>
  Instances, from a state that holds one projection. The child of the trigger exits with
  status 1 after writing \<^verbatim>\<open>network timeout\<close> on \<^verbatim>\<open>stderr\<close>: the browser receives the
  failure, the user is alerted, and the state is the old one. A reported success reloads
  the three collections. A rejected request leaves the state as it was.
\<close>

theorem refresh_operation_witness:
  "POST (Spawned [StderrData ''network timeout'', Close (Some 1)])
     = Fulfilled
         \<lparr>status = 500,
          body = \<lparr>success = False, message = ''Data update failed'', outputText = Some [],
                  error = Some ''network timeout''\<rparr>\<rparr>
   \<and> serve
       \<lparr>status = 500,
        body = \<lparr>success = False, message = ''Data update failed'', outputText = Some [],
                error = Some ''network timeout''\<rparr>\<rparr>
     = Resolved False
         (Some \<lparr>success = False, message = ''Data update failed'', outputText = Some [],
                error = Some ''network timeout''\<rparr>)
   \<and> \<not> success \<lparr>success = False, message = ''Data update failed'', outputText = Some [],
                  error = Some ''network timeout''\<rparr>
   \<and> refreshData_effects
       (Resolved False
          (Some \<lparr>success = False, message = ''Data update failed'', outputText = Some [],
                 error = Some ''network timeout''\<rparr>))
       Rejected Rejected Rejected ''1:05:00 PM''
     = [SetUpdating True, Fetch ''/api/update'',
        Alert ''Data update failed: Data update failed'', SetUpdating False]
   \<and> refreshData
       (initialState\<lparr>playerProjections := [projection ''P0'' ''NYY@BOS'' ''1.2''],
          loading := False\<rparr>)
       (Resolved False
          (Some \<lparr>success = False, message = ''Data update failed'', outputText = Some [],
                 error = Some ''network timeout''\<rparr>))
       Rejected Rejected Rejected ''1:05:00 PM''
     = initialState\<lparr>playerProjections := [projection ''P0'' ''NYY@BOS'' ''1.2''],
         loading := False\<rparr>
   \<and> success \<lparr>success = True, message = ''Data update completed successfully'',
                outputText = Some ''done'', error = None\<rparr>
   \<and> refreshData
       (initialState\<lparr>playerProjections := [projection ''P0'' ''NYY@BOS'' ''1.2''],
          loading := False\<rparr>)
       (Resolved True
          (Some \<lparr>success = True, message = ''Data update completed successfully'',
                 outputText = Some ''done'', error = None\<rparr>))
       (Resolved True (Some [projection ''P1'' ''NYY@BOS'' ''2.3'']))
       (Resolved True (Some [batter ''B1'' ''NYY@BOS'' ''High'' 12.5]))
       (Resolved True (Some [pitcher ''K1'' ''NYY@BOS'' ''High'' 7])) ''1:05:00 PM''
     = initialState\<lparr>playerProjections := [projection ''P1'' ''NYY@BOS'' ''2.3''],
         batterAnalysis := [batter ''B1'' ''NYY@BOS'' ''High'' 12.5],
         pitcherAnalysis := [pitcher ''K1'' ''NYY@BOS'' ''High'' 7],
         lastUpdated := ''1:05:00 PM'', loading := False\<rparr>
   \<and> refreshData
       (initialState\<lparr>playerProjections := [projection ''P0'' ''NYY@BOS'' ''1.2''],
          loading := False\<rparr>)
       Rejected Rejected Rejected Rejected ''1:05:00 PM''
     = initialState\<lparr>playerProjections := [projection ''P0'' ''NYY@BOS'' ''1.2''],
         loading := False\<rparr>"
  using
    refresh_operation [of
      "Resolved False
         (Some \<lparr>success = False, message = ''Data update failed'', outputText = Some [],
                error = Some ''network timeout''\<rparr>)"
      Rejected Rejected Rejected "''1:05:00 PM''"
      "initialState\<lparr>playerProjections := [projection ''P0'' ''NYY@BOS'' ''1.2''],
         loading := False\<rparr>"
      "\<lparr>success = False, message = ''Data update failed'', outputText = Some [],
        error = Some ''network timeout''\<rparr>" False]
    refresh_operation [of
      "Resolved True
         (Some \<lparr>success = True, message = ''Data update completed successfully'',
                outputText = Some ''done'', error = None\<rparr>)"
      "Resolved True (Some [projection ''P1'' ''NYY@BOS'' ''2.3''])"
      "Resolved True (Some [batter ''B1'' ''NYY@BOS'' ''High'' 12.5])"
      "Resolved True (Some [pitcher ''K1'' ''NYY@BOS'' ''High'' 7])" "''1:05:00 PM''"
      "initialState\<lparr>playerProjections := [projection ''P0'' ''NYY@BOS'' ''1.2''],
         loading := False\<rparr>"
      "\<lparr>success = True, message = ''Data update completed successfully'',
        outputText = Some ''done'', error = None\<rparr>" True]
    refresh_operation [of Rejected Rejected Rejected Rejected "''1:05:00 PM''"
      "initialState\<lparr>playerProjections := [projection ''P0'' ''NYY@BOS'' ''1.2''],
         loading := False\<rparr>"
      "\<lparr>success = False, message = ''Data update failed'', outputText = Some [],
        error = Some ''network timeout''\<rparr>" False]
  by (simp add: POST_def serve_def loadData_cases initialState_def)

section \<open>The refresh trigger\<close>

text \<open>Data events before the deciding event only fill the two buffers.\<close>

lemma childEvents_data:
  assumes "list_all isData ds"
  shows "childEvents (ds @ es) out err =
           childEvents es (out @ capturedStdout ds) (err @ capturedStderr ds)"
  using assms
proof (induction ds arbitrary: out err)
  case Nil
  show ?case by (simp add: capturedStdout_def capturedStderr_def)
next
  case (Cons d ds)
  then show ?case
    by (cases d) (simp_all add: capturedStdout_def capturedStderr_def)
qed

lemma POST_close:
  assumes "list_all isData ds"
  shows "POST (Spawned (ds @ Close code # rest)) =
     Fulfilled (if code = Some 0 then
             \<lparr>status = 200,
              body = \<lparr>success = True, message = ''Data update completed successfully'',
                      outputText = Some (capturedStdout ds), error = None\<rparr>\<rparr>
           else
             \<lparr>status = 500,
              body = \<lparr>success = False, message = ''Data update failed'',
                      outputText = Some (capturedStdout ds),
                      error = Some (capturedStderr ds)\<rparr>\<rparr>)"
  using childEvents_data [OF assms, of "Close code # rest" "[]" "[]"]
  by (simp add: POST_def)

lemma POST_error:
  assumes "list_all isData ds"
  shows "POST (Spawned (ds @ ErrorEvent msg # rest)) =
     Fulfilled \<lparr>status = 500,
           body = \<lparr>success = False, message = ''Failed to start update process'',
                   outputText = None, error = Some msg\<rparr>\<rparr>"
  using childEvents_data [OF assms, of "ErrorEvent msg # rest" "[]" "[]"]
  by (simp add: POST_def)

text \<open>While the child has neither closed nor failed, the request stays unanswered.\<close>

lemma POST_pending:
  assumes "list_all isData ds"
  shows "POST (Spawned ds) = Pending"
  using childEvents_data [OF assms, of "[]" "[]" "[]"]
  by (simp add: POST_def)

text \<open>An exception before the promise is created is answered by the \<^verbatim>\<open>catch\<close> block.\<close>

lemma POST_setup_throws:
  "POST (SetupThrows (ErrorObject msg)) =
     Fulfilled \<lparr>status = 500,
           body = \<lparr>success = False, message = ''Internal server error'',
                   outputText = None, error = Some msg\<rparr>\<rparr>"
  by (simp add: POST_def)

text \<open>
  The part of claim C2 that the code keeps. Let the child be created, write any chunks
  and then close or fail. Closing with status 0 gives a success response that carries
  the text written on \<^verbatim>\<open>stdout\<close>. Closing with any other status gives a failure with the
  message \<^verbatim>\<open>Data update failed\<close> and the text written on \<^verbatim>\<open>stderr\<close> as the error. A launch
  failure that arrives as the child's \<^verbatim>\<open>error\<close> event (a missing interpreter) gives a
  failure whose error is the launch error's message.
\<close>

lemma refresh_trigger_events:
  assumes "list_all isData ds"
  shows "POST (Spawned (ds @ Close (Some 0) # rest)) =
           Fulfilled \<lparr>status = 200,
             body = \<lparr>success = True, message = ''Data update completed successfully'',
                     outputText = Some (capturedStdout ds), error = None\<rparr>\<rparr>"
    and "code \<noteq> Some 0 \<Longrightarrow>
         POST (Spawned (ds @ Close code # rest)) =
           Fulfilled \<lparr>status = 500,
             body = \<lparr>success = False, message = ''Data update failed'',
                     outputText = Some (capturedStdout ds),
                     error = Some (capturedStderr ds)\<rparr>\<rparr>"
    and "POST (Spawned (ds @ ErrorEvent msg # rest)) =
           Fulfilled \<lparr>status = 500,
             body = \<lparr>success = False, message = ''Failed to start update process'',
                     outputText = None, error = Some msg\<rparr>\<rparr>"
  by (simp_all add: POST_close [OF assms] POST_error [OF assms])

lemma refresh_trigger_events_example:
  "POST (Spawned [StdoutData ''fetching'', StderrData ''network '', StderrData ''timeout'',
                  Close (Some 1)]) =
     Fulfilled \<lparr>status = 500,
       body = \<lparr>success = False, message = ''Data update failed'',
               outputText = Some ''fetching'', error = Some ''network timeout''\<rparr>\<rparr>"
  using refresh_trigger_events(2)
    [of "[StdoutData ''fetching'', StderrData ''network '', StderrData ''timeout'']"
        "Some 1" "[]"]
  by (simp add: capturedStdout_def capturedStderr_def)

text \<open>
  Claim C2 where \<^verbatim>\<open>spawn\<close> itself throws (Node throws for a launch error other than the
  few it reports through the \<^verbatim>\<open>error\<close> event; here a refused permission). The claim asks
  for a failure response with the launch error's message, which is what the \<^verbatim>\<open>catch\<close>
  block would send. The exception is raised inside the executor of the promise that
  the handler has returned without awaiting it, so the \<^verbatim>\<open>catch\<close> block is not reached:
  the promise is rejected with the error and the handler sends no response.
\<close>

theorem refresh_trigger_spawn_throws:
  "POST (SpawnThrows (ErrorObject ''spawn EPERM'')) = RejectedWith (ErrorObject ''spawn EPERM'')
   \<and> POST (SpawnThrows (ErrorObject ''spawn EPERM''))
       \<noteq> Fulfilled \<lparr>status = 500,
             body = \<lparr>success = False, message = ''Internal server error'',
                     outputText = None, error = Some ''spawn EPERM''\<rparr>\<rparr>"
  by (simp add: POST_def)

section \<open>The read endpoints\<close>

lemma path_join_projections:
  "path_join cwd [''..'', ''data'', ''mlb_player_projections.json''] = projectionsFile cwd"
  by (simp add: path_join_def path_push_def projectionsFile_def)

lemma path_join_batter:
  "path_join cwd [''..'', ''analysis'', ''batter_hits_analysis.json''] = batterAnalysisFile cwd"
  by (simp add: path_join_def path_push_def batterAnalysisFile_def)

lemma path_join_pitcher:
  "path_join cwd [''..'', ''analysis'', ''pitcher_strikeout_analysis.json'']
     = pitcherAnalysisFile cwd"
  by (simp add: path_join_def path_push_def pitcherAnalysisFile_def)

text \<open>The three endpoints read three different files, whatever the working directory.\<close>

lemma files_distinct:
  "projectionsFile cwd \<noteq> batterAnalysisFile cwd"
  "projectionsFile cwd \<noteq> pitcherAnalysisFile cwd"
  "batterAnalysisFile cwd \<noteq> pitcherAnalysisFile cwd"
  by (simp_all add: projectionsFile_def batterAnalysisFile_def pitcherAnalysisFile_def)

lemma GET_projections_cases:
  "GET_projections JSON_parse readFileSync cwd =
     (case readFileSync (projectionsFile cwd) of
        ReadThrows \<Rightarrow> serverError ''Failed to load projections data''
      | FileContents c \<Rightarrow>
          (case JSON_parse c of
             None \<Rightarrow> serverError ''Failed to load projections data''
           | Some d \<Rightarrow> okData d))"
  by (simp add: GET_projections_def path_join_projections serverError_def okData_def
      split: read_result.splits option.splits)

lemma GET_batter_analysis_cases:
  "GET_batter_analysis JSON_parse readFileSync cwd =
     (case readFileSync (batterAnalysisFile cwd) of
        ReadThrows \<Rightarrow> serverError ''Failed to load batter analysis data''
      | FileContents c \<Rightarrow>
          (case JSON_parse c of
             None \<Rightarrow> serverError ''Failed to load batter analysis data''
           | Some d \<Rightarrow> okData d))"
  by (simp add: GET_batter_analysis_def path_join_batter serverError_def okData_def
      split: read_result.splits option.splits)

lemma GET_pitcher_analysis_cases:
  "GET_pitcher_analysis JSON_parse readFileSync cwd =
     (case readFileSync (pitcherAnalysisFile cwd) of
        ReadThrows \<Rightarrow> serverError ''Failed to load pitcher analysis data''
      | FileContents c \<Rightarrow>
          (case JSON_parse c of
             None \<Rightarrow> serverError ''Failed to load pitcher analysis data''
           | Some d \<Rightarrow> okData d))"
  by (simp add: GET_pitcher_analysis_def path_join_pitcher serverError_def okData_def
      split: read_result.splits option.splits)

lemma okData_not_serverError: "okData d \<noteq> serverError msg"
  by (simp add: okData_def serverError_def)

lemma okData_inject: "okData d = okData d' \<longleftrightarrow> d = d'"
  by (simp add: okData_def)

text \<open>
  Claim C7. For each of the three read endpoints: when reading its file throws (the file
  is absent, or any other I/O error) or the contents cannot be parsed, the response is
  the generic error \<^verbatim>\<open>Failed to load ... data\<close> with status 500; when the file is read
  and parsed, the response is the decoded value with status 200; and a response that
  carries data carries the complete decoding of the file's contents, never anything
  else. The endpoints fail one by one: with the batter-analysis file absent and the
  projections file readable, the first endpoint answers with its error and the second
  with its data.
\<close>

theorem read_endpoints_per_resource:
  "(readFileSync (projectionsFile cwd) = ReadThrows
      \<or> (readFileSync (projectionsFile cwd) = FileContents c \<and> JSON_parse c = None) \<longrightarrow>
      GET_projections JSON_parse readFileSync cwd
        = serverError ''Failed to load projections data'')
   \<and> (readFileSync (projectionsFile cwd) = FileContents c \<and> JSON_parse c = Some d \<longrightarrow>
      GET_projections JSON_parse readFileSync cwd = okData d)
   \<and> (GET_projections JSON_parse readFileSync cwd = okData d \<longrightarrow>
      (\<exists>c'. readFileSync (projectionsFile cwd) = FileContents c' \<and> JSON_parse c' = Some d))
   \<and> (readFileSync (batterAnalysisFile cwd) = ReadThrows
      \<or> (readFileSync (batterAnalysisFile cwd) = FileContents c \<and> JSON_parse c = None) \<longrightarrow>
      GET_batter_analysis JSON_parse readFileSync cwd
        = serverError ''Failed to load batter analysis data'')
   \<and> (readFileSync (batterAnalysisFile cwd) = FileContents c \<and> JSON_parse c = Some d \<longrightarrow>
      GET_batter_analysis JSON_parse readFileSync cwd = okData d)
   \<and> (GET_batter_analysis JSON_parse readFileSync cwd = okData d \<longrightarrow>
      (\<exists>c'. readFileSync (batterAnalysisFile cwd) = FileContents c' \<and> JSON_parse c' = Some d))
   \<and> (readFileSync (pitcherAnalysisFile cwd) = ReadThrows
      \<or> (readFileSync (pitcherAnalysisFile cwd) = FileContents c \<and> JSON_parse c = None) \<longrightarrow>
      GET_pitcher_analysis JSON_parse readFileSync cwd
        = serverError ''Failed to load pitcher analysis data'')
   \<and> (readFileSync (pitcherAnalysisFile cwd) = FileContents c \<and> JSON_parse c = Some d \<longrightarrow>
      GET_pitcher_analysis JSON_parse readFileSync cwd = okData d)
   \<and> (GET_pitcher_analysis JSON_parse readFileSync cwd = okData d \<longrightarrow>
      (\<exists>c'. readFileSync (pitcherAnalysisFile cwd) = FileContents c' \<and> JSON_parse c' = Some d))
   \<and> (readFileSync (batterAnalysisFile cwd) = ReadThrows
      \<and> readFileSync (projectionsFile cwd) = FileContents c \<and> JSON_parse c = Some d \<longrightarrow>
      GET_batter_analysis JSON_parse readFileSync cwd
        = serverError ''Failed to load batter analysis data''
      \<and> GET_projections JSON_parse readFileSync cwd = okData d)"
  by (auto simp: GET_projections_cases GET_batter_analysis_cases GET_pitcher_analysis_cases
      okData_not_serverError okData_not_serverError [symmetric] okData_inject
      split: read_result.splits option.splits)

text \<open>
  Instances. With the server in \<^verbatim>\<open>/srv/mlb-dashboard\<close> and only the projections file in
  place, the projections endpoint returns the decoded list and the two analysis
  endpoints return their errors. With every file cut off in the middle, parsing fails and
  the projections endpoint returns its error.
\<close>

theorem read_endpoints_per_resource_witness:
  "projectionsOnly (batterAnalysisFile [''srv'', ''mlb-dashboard'']) = ReadThrows
   \<and> projectionsOnly (pitcherAnalysisFile [''srv'', ''mlb-dashboard'']) = ReadThrows
   \<and> projectionsOnly (projectionsFile [''srv'', ''mlb-dashboard'']) = FileContents ''[1, 2]''
   \<and> decodeNumbers ''[1, 2]'' = Some [1, 2]
   \<and> GET_projections decodeNumbers projectionsOnly [''srv'', ''mlb-dashboard'']
       = \<lparr>status = 200, body = Data [1, 2]\<rparr>
   \<and> GET_batter_analysis decodeNumbers projectionsOnly [''srv'', ''mlb-dashboard'']
       = \<lparr>status = 500, body = ErrorPayload ''Failed to load batter analysis data''\<rparr>
   \<and> GET_pitcher_analysis decodeNumbers projectionsOnly [''srv'', ''mlb-dashboard'']
       = \<lparr>status = 500, body = ErrorPayload ''Failed to load pitcher analysis data''\<rparr>
   \<and> decodeNumbers ''[1, '' = None
   \<and> GET_projections decodeNumbers (\<lambda>filePath. FileContents ''[1, '') [''srv'', ''mlb-dashboard'']
       = \<lparr>status = 500, body = ErrorPayload ''Failed to load projections data''\<rparr>"
  using
    read_endpoints_per_resource [of projectionsOnly "[''srv'', ''mlb-dashboard'']" "''[1, 2]''"
      decodeNumbers "[1, 2]"]
    read_endpoints_per_resource [of "\<lambda>filePath. FileContents ''[1, ''"
      "[''srv'', ''mlb-dashboard'']" "''[1, ''" decodeNumbers "[1, 2]"]
  by (simp add: projectionsOnly_def decodeNumbers_def projectionsFile_def batterAnalysisFile_def
      pitcherAnalysisFile_def serverError_def okData_def)

section \<open>Rendering and the arrays of the state\<close>

text \<open>The outcome of one rendering, with and without a selection.\<close>

lemma renderProjections_all:
  assumes "r < length h"
  shows "renderProjections pf [] r h =
           (length h, h[r := js_sort (compareHits pf) (deref h r)]
                      @ [take 50 (js_sort (compareHits pf) (deref h r))])"
  using assms
  by (simp add: renderProjections_def filteredPlayerProjections_ref_def ref_sort_def
      ref_slice_def alloc_def deref_def slice_take)

lemma renderProjections_selected:
  assumes "r < length h" "sel \<noteq> []"
  shows "renderProjections pf sel r h =
           (Suc (length h),
            h @ [js_sort (compareHits pf)
                   (filter (\<lambda>p. array_includes sel (GAME p)) (deref h r)),
                 take 50 (js_sort (compareHits pf)
                            (filter (\<lambda>p. array_includes sel (GAME p)) (deref h r)))])"
  using assms
  by (simp add: renderProjections_def filteredPlayerProjections_ref_def ref_sort_def
      ref_slice_def ref_filter_def alloc_def deref_def slice_take nth_append)

lemma renderBatters_all:
  assumes "r < length h"
  shows "renderBatters [] r h =
           ((Suc (length h), r),
            h[r := js_sort compareBatters (deref h r)]
            @ [js_sort compareBatters (filter (\<lambda>b. 0 < EDGE_PERCENTAGE b) (deref h r)),
               take 5 (js_sort compareBatters
                         (filter (\<lambda>b. 0 < EDGE_PERCENTAGE b) (deref h r)))])"
  using assms
  by (simp add: renderBatters_def filteredBatterAnalysis_ref_def ref_sort_def
      ref_slice_def ref_filter_def alloc_def deref_def slice_take nth_append list_update_append)

lemma renderBatters_selected:
  assumes "r < length h" "sel \<noteq> []"
  shows "renderBatters sel r h =
           ((Suc (Suc (length h)), length h),
            h @ [js_sort compareBatters (filter (\<lambda>b. array_includes sel (GAME b)) (deref h r)),
                 js_sort compareBatters
                   (filter (\<lambda>b. 0 < EDGE_PERCENTAGE b)
                      (filter (\<lambda>b. array_includes sel (GAME b)) (deref h r))),
                 take 5 (js_sort compareBatters
                   (filter (\<lambda>b. 0 < EDGE_PERCENTAGE b)
                      (filter (\<lambda>b. array_includes sel (GAME b)) (deref h r))))])"
  using assms
  by (simp add: renderBatters_def filteredBatterAnalysis_ref_def ref_sort_def
      ref_slice_def ref_filter_def alloc_def deref_def slice_take nth_append list_update_append)

text \<open>
  The arrays that a rendering hands to the tables hold the views defined on values
  above, computed from the state's array as it was before the rendering.
\<close>

lemma renderProjections_shows_table:
  assumes "r < length h"
  shows "deref (snd (renderProjections pf sel r h)) (fst (renderProjections pf sel r h))
           = projectionTable pf sel (deref h r)"
proof (cases "sel = []")
  case True
  then show ?thesis
    using assms
    by (simp add: renderProjections_all projectionTable_def filteredPlayerProjections_def
        slice_take deref_def nth_append)
next
  case False
  then show ?thesis
    using assms
    by (simp add: renderProjections_selected projectionTable_def filteredPlayerProjections_def
        slice_take deref_def nth_append)
qed

lemma renderBatters_shows_views:
  assumes "r < length h"
  shows "deref (snd (renderBatters sel r h)) (fst (fst (renderBatters sel r h)))
           = topBatterOpportunities sel (deref h r)
         \<and> deref (snd (renderBatters sel r h)) (snd (fst (renderBatters sel r h)))
           = batterTable sel (deref h r)"
proof (cases "sel = []")
  case True
  then show ?thesis
    using assms
    by (simp add: renderBatters_all topBatterOpportunities_def batterTable_def
        filteredBatterAnalysis_def slice_take deref_def nth_append)
next
  case False
  then show ?thesis
    using assms
    by (simp add: renderBatters_selected topBatterOpportunities_def batterTable_def
        filteredBatterAnalysis_def slice_take deref_def nth_append)
qed

text \<open>With a selection the sorts work on filtered copies and the state's arrays stay.\<close>

lemma render_selected_keeps_state:
  assumes "sel \<noteq> []"
  shows "r < length hp \<Longrightarrow> deref (snd (renderProjections pf sel r hp)) r = deref hp r"
    and "r < length hb \<Longrightarrow> deref (snd (renderBatters sel r hb)) r = deref hb r"
  using assms
  by (simp_all add: renderProjections_selected renderBatters_selected deref_def nth_append)

text \<open>
  A rendering of the pitchers sorts a filtered copy only (the detail table is not
  sorted), so the state's pitcher array stays as it was, with or without a selection.
\<close>

lemma renderPitchers_keeps_state:
  assumes "r < length h"
  shows "deref (snd (renderPitchers sel r h)) r = deref h r"
  using assms
  by (simp add: renderPitchers_def filteredPitcherAnalysis_ref_def ref_sort_def ref_slice_def
      ref_filter_def alloc_def deref_def nth_append list_update_append)

lemma js_sort_compareBatters:
  assumes "list_all ordinaryLabel xs"
  shows "js_sort compareBatters xs = sort_key batterKey xs"
  using assms by (intro js_sort_sort_key compareBatters_key) (simp_all add: list_all_iff)

text \<open>
  With no game selected the table sorts work on the state's own arrays. Whatever the
  comparator gives, the rows stored afterwards are the rows stored before.
\<close>

lemma renderProjections_stored:
  assumes "r < length h"
  shows "deref (snd (renderProjections pf [] r h)) r = js_sort (compareHits pf) (deref h r)"
  using assms by (simp add: renderProjections_all deref_def nth_append)

lemma renderBatters_stored:
  assumes "r < length h"
  shows "deref (snd (renderBatters [] r h)) r = js_sort compareBatters (deref h r)"
  using assms by (simp add: renderBatters_all deref_def nth_append)

text \<open>
  Claim C10 as stated fails on a hit-count field that is neither numeric nor the
  placeholder. The state's projections array holds two rows, the first with the empty
  string as its hit count, the second with \<^verbatim>\<open>2.3\<close>. With no game selected the filtered
  collection is that array; every comparison gives \<open>NaN\<close>, which counts as equal, so the
  comparator is consistent on the two rows and the stable sort keeps them in place. The
  stored array after the rendering is the stored array before it, and it is not in
  descending order of hit count: the first row's hit count is not at least the second's.
\<close>

theorem rendering_unparsed_counterexample:
  "fst (filteredPlayerProjections_ref [] 0
          [[projection ''P1'' ''NYY@BOS'' [], projection ''P2'' ''NYY@BOS'' ''2.3'']]) = 0
   \<and> deref (snd (renderProjections exampleParseFloat [] 0
         [[projection ''P1'' ''NYY@BOS'' [], projection ''P2'' ''NYY@BOS'' ''2.3'']])) 0
       = [projection ''P1'' ''NYY@BOS'' [], projection ''P2'' ''NYY@BOS'' ''2.3'']
   \<and> hitCount exampleParseFloat (projection ''P1'' ''NYY@BOS'' []) = NaN
   \<and> hitCount exampleParseFloat (projection ''P2'' ''NYY@BOS'' ''2.3'')
       = Num (2589569785738035 / 1125899906842624)
   \<and> \<not> num_ge (hitCount exampleParseFloat (projection ''P1'' ''NYY@BOS'' []))
            (hitCount exampleParseFloat (projection ''P2'' ''NYY@BOS'' ''2.3''))"
  by (simp add: renderProjections_def filteredPlayerProjections_ref_def ref_sort_def
      ref_slice_def alloc_def deref_def js_sort_def compareHits_def hitValue_def hitCount_def
      exampleParseFloat_simps projection_def)

text \<open>
  Claim C10, amended. With no game selected the filtered projections and the filtered
  batters are the state's own arrays (the same references), and the sorts of the
  projection table and of the batter detail table act on those arrays where they are.
  After one rendering each of the two stored arrays holds a rearrangement of its former
  rows: the projections in descending order of hit count (stably, the placeholder
  counting as zero) when every hit-count field is the placeholder or is read as a
  number, whatever \<^verbatim>\<open>parseFloat\<close> is; the batters in descending order of confidence rank
  and, within a rank, of edge percentage (stably) when no confidence label names an
  inherited property. Deriving the views therefore writes to the state. Nothing is
  stated about the order of the stored rows outside these two conditions.
\<close>

theorem rendering_sorts_state_arrays:
  "(r < length hp \<longrightarrow>
      fst (filteredPlayerProjections_ref [] r hp) = r
      \<and> mset (deref (snd (renderProjections pf [] r hp)) r) = mset (deref hp r)
      \<and> (list_all (numericOrPlaceholder pf) (deref hp r) \<longrightarrow>
           deref (snd (renderProjections pf [] r hp)) r
             = sort_key (\<lambda>p. descKey (hitCount pf p)) (deref hp r)))
   \<and> (r < length hb \<longrightarrow>
      fst (filteredBatterAnalysis_ref [] r hb) = r
      \<and> snd (fst (renderBatters [] r hb)) = r
      \<and> mset (deref (snd (renderBatters [] r hb)) r) = mset (deref hb r)
      \<and> (list_all ordinaryLabel (deref hb r) \<longrightarrow>
           deref (snd (renderBatters [] r hb)) r = sort_key batterKey (deref hb r)))"
proof -
  have projections:
    "fst (filteredPlayerProjections_ref [] r hp) = r
     \<and> mset (deref (snd (renderProjections pf [] r hp)) r) = mset (deref hp r)
     \<and> (list_all (numericOrPlaceholder pf) (deref hp r) \<longrightarrow>
          deref (snd (renderProjections pf [] r hp)) r
            = sort_key (\<lambda>p. descKey (hitCount pf p)) (deref hp r))"
    if "r < length hp"
    using that
    by (simp add: filteredPlayerProjections_ref_def renderProjections_stored mset_js_sort
        js_sort_compareHits)
  have batters:
    "fst (filteredBatterAnalysis_ref [] r hb) = r
     \<and> snd (fst (renderBatters [] r hb)) = r
     \<and> mset (deref (snd (renderBatters [] r hb)) r) = mset (deref hb r)
     \<and> (list_all ordinaryLabel (deref hb r) \<longrightarrow>
          deref (snd (renderBatters [] r hb)) r = sort_key batterKey (deref hb r))"
    if "r < length hb"
  proof -
    have "snd (fst (renderBatters [] r hb)) = r"
      using that by (simp add: renderBatters_all)
    then show ?thesis
      using that
      by (simp add: filteredBatterAnalysis_ref_def renderBatters_stored mset_js_sort
          js_sort_compareBatters)
  qed
  show ?thesis
    using projections batters by blast
qed

text \<open>
  An instance: a state array of two projections with hit values 1.05 and 2.3, and one of
  two batters labelled Low and High. After rendering with no game selected both arrays
  hold their rows in the other order.
\<close>

theorem rendering_sorts_state_arrays_witness:
  "(0::nat) < length [[projection ''P1'' ''NYY@BOS'' ''1.05'', projection ''P2'' ''NYY@BOS'' ''2.3'']]
   \<and> list_all (numericOrPlaceholder exampleParseFloat)
       (deref [[projection ''P1'' ''NYY@BOS'' ''1.05'', projection ''P2'' ''NYY@BOS'' ''2.3'']] 0)
   \<and> deref [[projection ''P1'' ''NYY@BOS'' ''1.05'', projection ''P2'' ''NYY@BOS'' ''2.3'']] 0
       = [projection ''P1'' ''NYY@BOS'' ''1.05'', projection ''P2'' ''NYY@BOS'' ''2.3'']
   \<and> deref (snd (renderProjections exampleParseFloat [] 0
         [[projection ''P1'' ''NYY@BOS'' ''1.05'', projection ''P2'' ''NYY@BOS'' ''2.3'']])) 0
       = [projection ''P2'' ''NYY@BOS'' ''2.3'', projection ''P1'' ''NYY@BOS'' ''1.05'']
   \<and> (0::nat) < length [[batter ''B1'' ''NYY@BOS'' ''Low'' 3, batter ''B2'' ''NYY@BOS'' ''High'' 12.5]]
   \<and> list_all ordinaryLabel
       (deref [[batter ''B1'' ''NYY@BOS'' ''Low'' 3, batter ''B2'' ''NYY@BOS'' ''High'' 12.5]] 0)
   \<and> deref (snd (renderBatters [] 0
         [[batter ''B1'' ''NYY@BOS'' ''Low'' 3, batter ''B2'' ''NYY@BOS'' ''High'' 12.5]])) 0
       = [batter ''B2'' ''NYY@BOS'' ''High'' 12.5, batter ''B1'' ''NYY@BOS'' ''Low'' 3]"
proof -
  have np: "list_all (numericOrPlaceholder exampleParseFloat)
       (deref [[projection ''P1'' ''NYY@BOS'' ''1.05'', projection ''P2'' ''NYY@BOS'' ''2.3'']] 0)"
    by (simp add: deref_def numericOrPlaceholder_def projection_def exampleParseFloat_simps)
  have nb: "list_all ordinaryLabel
       (deref [[batter ''B1'' ''NYY@BOS'' ''Low'' 3, batter ''B2'' ''NYY@BOS'' ''High'' 12.5]] 0)"
    by (simp add: deref_def ordinaryLabel_def batter_def objectPrototypeKeys_def)
  have sp: "sort_key (\<lambda>p. descKey (hitCount exampleParseFloat p))
         (deref [[projection ''P1'' ''NYY@BOS'' ''1.05'', projection ''P2'' ''NYY@BOS'' ''2.3'']] 0)
       = [projection ''P2'' ''NYY@BOS'' ''2.3'', projection ''P1'' ''NYY@BOS'' ''1.05'']"
    by (simp add: deref_def hitCount_def projection_def exampleParseFloat_simps)
  have sb: "sort_key batterKey
         (deref [[batter ''B1'' ''NYY@BOS'' ''Low'' 3, batter ''B2'' ''NYY@BOS'' ''High'' 12.5]] 0)
       = [batter ''B2'' ''NYY@BOS'' ''High'' 12.5, batter ''B1'' ''NYY@BOS'' ''Low'' 3]"
    by (simp add: deref_def batterKey_def batter_def confidenceRank_def)
  have d: "deref [[projection ''P1'' ''NYY@BOS'' ''1.05'', projection ''P2'' ''NYY@BOS'' ''2.3'']] 0
       = [projection ''P1'' ''NYY@BOS'' ''1.05'', projection ''P2'' ''NYY@BOS'' ''2.3'']"
    by (simp add: deref_def)
  show ?thesis
    using rendering_sorts_state_arrays [where r = 0
      and hp = "[[projection ''P1'' ''NYY@BOS'' ''1.05'', projection ''P2'' ''NYY@BOS'' ''2.3'']]"
      and pf = exampleParseFloat
      and hb = "[[batter ''B1'' ''NYY@BOS'' ''Low'' 3, batter ''B2'' ''NYY@BOS'' ''High'' 12.5]]"]
      np nb sp sb d
    by simp
qed

end
